theory Spec2Isabelle
  imports Main "HOL-Library.Char_ord" "HOL-Library.List_Lexorder"
begin

section \<open>Values\<close>

text \<open>
  The values a cell can hold: \<open>None\<close>, booleans, integers, strings, dictionaries with
  string keys, Pydantic models (class name and fields in declaration order) and
  callables. A callable is known by its identity; what it returns when called with one
  argument is given by a table \<open>callables\<close> that every operation takes as its first
  argument. Selectors, updaters and reducers are pure, as their types in the source say
  (\<open>Callable[[T], T]\<close>, \<open>Callable[[T, A], T]\<close>): they return a value or raise.
\<close>

datatype val =
    VNone
  | VBool bool
  | VInt int
  | VStr string
  | VDict "(string \<times> val) list"
  | VModel string "(string \<times> val) list"
  | VFun nat

datatype exn =
    NameError string
  | AttributeError string
  | ValueError string
  | RuntimeError string
  | TypeError string
  | RecursionError
  | ContextNotFoundError nat nat string
  | Raised nat

type_synonym callables = "nat \<Rightarrow> val \<Rightarrow> exn + val"

text \<open>\<open>callable(value)\<close> and \<open>isinstance(value, BaseModel)\<close>.\<close>

fun callable :: "val \<Rightarrow> bool" where
  "callable (VFun f) = True"
| "callable v = False"

fun is_BaseModel :: "val \<Rightarrow> bool" where
  "is_BaseModel (VModel c fs) = True"
| "is_BaseModel v = False"

text \<open>\<open>value(arg)\<close>: calling a value with one argument.\<close>

fun call_value :: "callables \<Rightarrow> val \<Rightarrow> val \<Rightarrow> exn + val" where
  "call_value app (VFun f) x = app f x"
| "call_value app v x = Inl (TypeError ''object is not callable'')"

definition bool_int :: "bool \<Rightarrow> int" where
  "bool_int b = (if b then 1 else 0)"

text \<open>
  Python's \<open>==\<close> on these values. \<open>bool\<close> is a subclass of \<open>int\<close>, so \<open>True == 1\<close>.
  Dictionaries are equal when they have the same keys with equal values; two models are
  equal when they have the same class and equal field dictionaries; callables are
  compared by identity. \<open>dict_sub xs ys\<close>: every item of \<open>xs\<close> has an equal item in \<open>ys\<close>.
\<close>

fun py_eq :: "val \<Rightarrow> val \<Rightarrow> bool"
  and dict_sub :: "(string \<times> val) list \<Rightarrow> (string \<times> val) list \<Rightarrow> bool" where
  "py_eq VNone y = (case y of VNone \<Rightarrow> True | _ \<Rightarrow> False)"
| "py_eq (VBool a) y =
     (case y of VBool b \<Rightarrow> a = b | VInt j \<Rightarrow> bool_int a = j | _ \<Rightarrow> False)"
| "py_eq (VInt i) y =
     (case y of VBool b \<Rightarrow> i = bool_int b | VInt j \<Rightarrow> i = j | _ \<Rightarrow> False)"
| "py_eq (VStr s) y = (case y of VStr t \<Rightarrow> s = t | _ \<Rightarrow> False)"
| "py_eq (VDict xs) y =
     (case y of VDict ys \<Rightarrow> length xs = length ys \<and> dict_sub xs ys | _ \<Rightarrow> False)"
| "py_eq (VModel c xs) y =
     (case y of VModel d ys \<Rightarrow> c = d \<and> length xs = length ys \<and> dict_sub xs ys
      | _ \<Rightarrow> False)"
| "py_eq (VFun f) y = (case y of VFun g \<Rightarrow> f = g | _ \<Rightarrow> False)"
| "dict_sub [] ys = True"
| "dict_sub ((k, v) # xs) ys =
     ((case map_of ys k of None \<Rightarrow> False | Some v' \<Rightarrow> py_eq v v') \<and> dict_sub xs ys)"

text \<open>\<open>model_dump()\<close>: the field dictionary of a model, nested models dumped too.\<close>

fun dump_value :: "val \<Rightarrow> val"
  and dump_items :: "(string \<times> val) list \<Rightarrow> (string \<times> val) list" where
  "dump_value (VModel c fs) = VDict (dump_items fs)"
| "dump_value (VDict xs) = VDict (dump_items xs)"
| "dump_value VNone = VNone"
| "dump_value (VBool b) = VBool b"
| "dump_value (VInt i) = VInt i"
| "dump_value (VStr s) = VStr s"
| "dump_value (VFun f) = VFun f"
| "dump_items [] = []"
| "dump_items ((k, v) # xs) = (k, dump_value v) # dump_items xs"

definition model_dump :: "val \<Rightarrow> val" where
  "model_dump m = dump_value m"

text \<open>
  The comparison at the head of \<open>State._set_value\<close>: two models are compared by their
  dumps, anything else by \<open>==\<close>.
\<close>

definition values_equal :: "val \<Rightarrow> val \<Rightarrow> bool" where
  "values_equal old_value new_value =
     (if is_BaseModel old_value \<and> is_BaseModel new_value
      then py_eq (model_dump old_value) (model_dump new_value)
      else py_eq old_value new_value)"

section \<open>Cells, watchers and the world\<close>

text \<open>
  A watcher is one of the callables that the code puts into \<open>State._watchers\<close>:
  \<^item> \<open>Callback i f\<close>: a callable of the application, of identity \<open>i\<close>, passed to
    \<open>State.watch\<close>. The application's code is not part of the library: a call is
    recorded in the trace and the callable returns or raises, \<open>f old new\<close> telling which.
  \<^item> \<open>EffectLambda wid m f\<close>: the \<open>lambda old, new, m=method: m(old, new)\<close> that
    \<open>connect_effects\<close> and \<open>connect_store_effects\<close> build around the bound method \<open>m\<close> of
    widget \<open>wid\<close>; the method is application code and is treated like a callback.
  \<^item> \<open>OnSourceChange sources selector d\<close>: the closure \<open>on_source_change\<close> of
    \<open>use_derived\<close>, which re-reads the cells \<open>sources\<close>, applies \<open>selector\<close> to their
    values and calls \<open>set\<close> on the derived cell \<open>d\<close>.
\<close>

datatype callback =
    Callback nat "val \<Rightarrow> val \<Rightarrow> exn option"
  | EffectLambda nat string "val \<Rightarrow> val \<Rightarrow> exn option"
  | OnSourceChange "nat list" "val list \<Rightarrow> exn + val" nat

datatype event =
    CallbackCalled nat val val
  | MethodCalled nat string val val
  | Posted nat nat val val

record cell =
  c_value :: val
  c_subscribers :: "nat list"
  c_watchers :: "callback list"
  c_name :: "string option"

text \<open>
  The world: the \<open>State\<close> objects by address, the next free address, and the trace of
  what the application has seen (calls of its callbacks and methods, and the
  \<open>StateChanged\<close> messages posted to widgets: \<open>Posted wid r old new\<close>).
\<close>

record world =
  cells :: "nat \<Rightarrow> cell"
  next_ref :: nat
  trace :: "event list"

definition log_event :: "event \<Rightarrow> world \<Rightarrow> world" where
  "log_event ev w = w\<lparr>trace := trace w @ [ev]\<rparr>"

definition store_value :: "nat \<Rightarrow> val \<Rightarrow> world \<Rightarrow> world" where
  "store_value r v w = w\<lparr>cells := (cells w)(r := (cells w r)\<lparr>c_value := v\<rparr>)\<rparr>"

text \<open>\<open>for widget in self._subscribers: widget.post_message(message)\<close>\<close>

fun post_messages :: "nat \<Rightarrow> val \<Rightarrow> val \<Rightarrow> nat list \<Rightarrow> world \<Rightarrow> world" where
  "post_messages r old new [] w = w"
| "post_messages r old new (wid # wids) w =
     post_messages r old new wids (log_event (Posted wid r old new) w)"

text \<open>
  In \<open>use_derived\<close>: \<open>get_values\<close> reads every source, and the selector gets the one
  value when there is one source and the values as positional arguments otherwise. A
  selector of the model takes the list of its positional arguments.
\<close>

definition get_values :: "nat list \<Rightarrow> world \<Rightarrow> val list" where
  "get_values sources w = map (\<lambda>s. c_value (cells w s)) sources"

definition apply_selector ::
  "(val list \<Rightarrow> exn + val) \<Rightarrow> nat list \<Rightarrow> val list \<Rightarrow> exn + val" where
  "apply_selector selector sources vals =
     (if length sources = 1 then selector [vals ! 0] else selector vals)"

text \<open>
  \<open>State.set\<close>, \<open>State._set_value\<close> and the loop over the watchers. The three call each
  other through \<open>on_source_change\<close>; the first number is the depth of nested derived
  updates that is still allowed: Python raises \<open>RecursionError\<close> when the stack is
  exhausted. No watcher of the model changes a watcher list, so iterating over the list
  as it was when the loop began is what Python's iteration over the live list does.
\<close>

fun State_set :: "callables \<Rightarrow> nat \<Rightarrow> nat \<Rightarrow> val \<Rightarrow> world \<Rightarrow> world \<times> exn option"
  and State_set_value :: "callables \<Rightarrow> nat \<Rightarrow> nat \<Rightarrow> val \<Rightarrow> world \<Rightarrow> world \<times> exn option"
  and notify_watchers ::
    "callables \<Rightarrow> nat \<Rightarrow> callback list \<Rightarrow> val \<Rightarrow> val \<Rightarrow> world \<Rightarrow> world \<times> exn option"
  where
  "State_set app n r v w =
     (if callable v
      then (case call_value app v (c_value (cells w r)) of
              Inl e \<Rightarrow> (w, Some e)
            | Inr new_value \<Rightarrow> State_set_value app n r new_value w)
      else State_set_value app n r v w)"
| "State_set_value app n r new_value w =
     (let old_value = c_value (cells w r) in
      if values_equal old_value new_value then (w, None)
      else
        (case notify_watchers app n (c_watchers (cells w r)) old_value new_value
                (store_value r new_value w) of
           (w', Some e) \<Rightarrow> (w', Some e)
         | (w', None) \<Rightarrow>
             (post_messages r old_value new_value (c_subscribers (cells w' r)) w', None)))"
| "notify_watchers app n [] old new w = (w, None)"
| "notify_watchers app n (Callback i f # cbs) old new w =
     (case f old new of
        Some e \<Rightarrow> (log_event (CallbackCalled i old new) w, Some e)
      | None \<Rightarrow> notify_watchers app n cbs old new (log_event (CallbackCalled i old new) w))"
| "notify_watchers app n (EffectLambda wid m f # cbs) old new w =
     (case f old new of
        Some e \<Rightarrow> (log_event (MethodCalled wid m old new) w, Some e)
      | None \<Rightarrow> notify_watchers app n cbs old new (log_event (MethodCalled wid m old new) w))"
| "notify_watchers app 0 (OnSourceChange sources selector d # cbs) old new w =
     (w, Some RecursionError)"
| "notify_watchers app (Suc n) (OnSourceChange sources selector d # cbs) old new w =
     (case apply_selector selector sources (get_values sources w) of
        Inl e \<Rightarrow> (w, Some e)
      | Inr new_computed \<Rightarrow>
          (case State_set app n d new_computed w of
             (w', Some e) \<Rightarrow> (w', Some e)
           | (w', None) \<Rightarrow> notify_watchers app (Suc n) cbs old new w'))"

text \<open>\<open>State.__init__\<close> allocates a cell; \<open>ModelState.__init__\<close> only calls it.\<close>

definition State_init :: "val \<Rightarrow> string option \<Rightarrow> world \<Rightarrow> world \<times> nat" where
  "State_init initial_value name w =
     (w\<lparr>cells := (cells w)(next_ref w :=
          \<lparr>c_value = initial_value, c_subscribers = [], c_watchers = [], c_name = name\<rparr>),
        next_ref := Suc (next_ref w)\<rparr>,
      next_ref w)"

definition ModelState_init :: "val \<Rightarrow> string option \<Rightarrow> world \<Rightarrow> world \<times> nat" where
  "ModelState_init initial_value name w = State_init initial_value name w"

definition State_get :: "nat \<Rightarrow> world \<Rightarrow> val" where
  "State_get r w = c_value (cells w r)"

text \<open>The setter of the \<open>value\<close> property, and \<open>ModelState.replace\<close>.\<close>

definition State_value_setter ::
  "callables \<Rightarrow> nat \<Rightarrow> nat \<Rightarrow> val \<Rightarrow> world \<Rightarrow> world \<times> exn option" where
  "State_value_setter app n r new_value w = State_set_value app n r new_value w"

definition ModelState_replace ::
  "callables \<Rightarrow> nat \<Rightarrow> nat \<Rightarrow> val \<Rightarrow> world \<Rightarrow> world \<times> exn option" where
  "ModelState_replace app n r new_model w = State_set_value app n r new_model w"

text \<open>\<open>subscribe\<close> and \<open>unsubscribe\<close>: \<open>add\<close> and \<open>discard\<close> on a set of widgets.\<close>

definition State_subscribe :: "nat \<Rightarrow> nat \<Rightarrow> world \<Rightarrow> world" where
  "State_subscribe r wid w =
     w\<lparr>cells := (cells w)(r := (cells w r)\<lparr>c_subscribers :=
        (if wid \<in> set (c_subscribers (cells w r)) then c_subscribers (cells w r)
         else c_subscribers (cells w r) @ [wid])\<rparr>)\<rparr>"

definition State_unsubscribe :: "nat \<Rightarrow> nat \<Rightarrow> world \<Rightarrow> world" where
  "State_unsubscribe r wid w =
     w\<lparr>cells := (cells w)(r := (cells w r)\<lparr>c_subscribers :=
        removeAll wid (c_subscribers (cells w r))\<rparr>)\<rparr>"

text \<open>
  \<open>watch\<close> appends the callback and returns the closure \<open>unwatch\<close>, which holds the
  cell and the callback. Calling the closure is \<open>self._watchers.remove(callback)\<close>:
  \<open>list.remove\<close> deletes the first item equal to its argument and raises
  \<open>ValueError\<close> when there is none.
\<close>

datatype unwatch_closure = Unwatch nat callback

definition State_watch :: "nat \<Rightarrow> callback \<Rightarrow> world \<Rightarrow> world \<times> unwatch_closure" where
  "State_watch r cb w =
     (w\<lparr>cells := (cells w)(r := (cells w r)\<lparr>c_watchers := c_watchers (cells w r) @ [cb]\<rparr>)\<rparr>,
      Unwatch r cb)"

fun unwatch :: "unwatch_closure \<Rightarrow> world \<Rightarrow> world \<times> exn option" where
  "unwatch (Unwatch r cb) w =
     (if cb \<in> set (c_watchers (cells w r))
      then (w\<lparr>cells := (cells w)(r := (cells w r)\<lparr>c_watchers :=
              remove1 cb (c_watchers (cells w r))\<rparr>)\<rparr>, None)
      else (w, Some (ValueError ''list.remove(x): x not in list'')))"

section \<open>Widgets and their classes\<close>

text \<open>
  A class is known by its name and its method resolution order: the namespace of the
  class itself first, then those of its bases (the namespace of \<open>object\<close>, whose names
  all begin with an underscore, is left out). An attribute of a class is a function
  defined in a class body, carrying the \<open>EffectRegistration\<close> that \<open>@effect\<close> attached
  to it, if any, and what a call of the bound method does (it returns or raises);
  or \<open>None\<close>; or some other object that carries no registration. Widgets of the model
  have no instance attribute that hides a method of their class.
\<close>

datatype target = TName string | TStore nat

datatype class_attr =
    Function "target list option" "val \<Rightarrow> val \<Rightarrow> exn option"
  | NoneValue
  | OtherValue

type_synonym namespace = "(string \<times> class_attr) list"

record pytype =
  t_name :: string
  t_mro :: "namespace list"

type_synonym reducer = "val \<Rightarrow> val \<Rightarrow> exn + val"

record py_context =
  ctx_id :: nat
  ctx_default_value :: val
  ctx_name :: "string option"
  ctx_is_model :: bool

record store =
  s_id :: nat
  s_reducer :: reducer
  s_initial :: val
  s_name :: "string option"

text \<open>
  A widget with its chain of parents. A \<open>ContextProvider\<close> holds its context and its
  cell (\<open>_rx_context\<close>, \<open>_state\<close>), a \<open>StoreProvider\<close> its store and its cell
  (\<open>_store\<close>, \<open>_state\<close>). Contexts and stores are compared by identity (\<open>is\<close>): by
  \<open>ctx_id\<close> and \<open>s_id\<close>.
\<close>

datatype wkind =
    PlainWidget
  | ContextProviderW py_context nat
  | StoreProviderW store nat

datatype widget =
  Widget (w_id: nat) (w_type: pytype) (w_kind: wkind) (w_parent: "widget option")

section \<open>Effects\<close>

text \<open>\<open>dir(cls)\<close>: the names of the class and of its bases, sorted.\<close>

definition dir_type :: "pytype \<Rightarrow> string list" where
  "dir_type t = sort (remdups (concat (map (map fst) (t_mro t))))"

text \<open>\<open>getattr(cls, name, None)\<close>: the first namespace of the MRO that has the name.\<close>

fun getattr_type :: "namespace list \<Rightarrow> string \<Rightarrow> class_attr" where
  "getattr_type [] attr_name = NoneValue"
| "getattr_type (ns # mro) attr_name =
     (case map_of ns attr_name of Some a \<Rightarrow> a | None \<Rightarrow> getattr_type mro attr_name)"

fun get_effect_registration :: "class_attr \<Rightarrow> target list option" where
  "get_effect_registration (Function registration f) = registration"
| "get_effect_registration a = None"

fun startswith_underscore :: "string \<Rightarrow> bool" where
  "startswith_underscore [] = False"
| "startswith_underscore (c # cs) = (c = CHR ''_'')"

text \<open>
  The loop of \<open>connect_effects\<close> over \<open>dir(type(widget))\<close>. The bound method
  \<open>getattr(widget, attr_name)\<close> of a function of the class is callable.
\<close>

fun connect_effects_loop ::
  "widget \<Rightarrow> string \<Rightarrow> nat \<Rightarrow> string list \<Rightarrow> world \<Rightarrow> world" where
  "connect_effects_loop widget state_name state [] w = w"
| "connect_effects_loop widget state_name state (attr_name # names) w =
     (if startswith_underscore attr_name
      then connect_effects_loop widget state_name state names w
      else
        (case getattr_type (t_mro (w_type widget)) attr_name of
           Function registration method \<Rightarrow>
             (case registration of
                None \<Rightarrow> connect_effects_loop widget state_name state names w
              | Some targets \<Rightarrow>
                  (if TName state_name \<in> set targets
                   then connect_effects_loop widget state_name state names
                          (fst (State_watch state
                             (EffectLambda (w_id widget) attr_name method) w))
                   else connect_effects_loop widget state_name state names w))
         | _ \<Rightarrow> connect_effects_loop widget state_name state names w))"

definition connect_effects :: "widget \<Rightarrow> string \<Rightarrow> nat \<Rightarrow> world \<Rightarrow> world" where
  "connect_effects widget state_name state w =
     connect_effects_loop widget state_name state (dir_type (w_type widget)) w"

fun connect_store_effects_loop ::
  "widget \<Rightarrow> store \<Rightarrow> nat \<Rightarrow> string list \<Rightarrow> world \<Rightarrow> world" where
  "connect_store_effects_loop widget st state [] w = w"
| "connect_store_effects_loop widget st state (attr_name # names) w =
     (if startswith_underscore attr_name
      then connect_store_effects_loop widget st state names w
      else
        (case getattr_type (t_mro (w_type widget)) attr_name of
           Function registration method \<Rightarrow>
             (case registration of
                None \<Rightarrow> connect_store_effects_loop widget st state names w
              | Some targets \<Rightarrow>
                  (if TStore (s_id st) \<in> set targets
                   then connect_store_effects_loop widget st state names
                          (fst (State_watch state
                             (EffectLambda (w_id widget) attr_name method) w))
                   else connect_store_effects_loop widget st state names w))
         | _ \<Rightarrow> connect_store_effects_loop widget st state names w))"

definition connect_store_effects :: "widget \<Rightarrow> store \<Rightarrow> nat \<Rightarrow> world \<Rightarrow> world" where
  "connect_store_effects widget st state w =
     connect_store_effects_loop widget st state (dir_type (w_type widget)) w"

section \<open>Hooks\<close>

text \<open>\<open>if name:\<close> holds for a name that is neither \<open>None\<close> nor empty.\<close>

fun name_given :: "string option \<Rightarrow> bool" where
  "name_given None = False"
| "name_given (Some s) = (s \<noteq> [])"

record state_handle =
  h_state :: nat
  h_name :: "string option"

definition use_state :: "widget \<Rightarrow> val \<Rightarrow> string option \<Rightarrow> world \<Rightarrow> world \<times> state_handle" where
  "use_state widget initial_value name w =
     (case State_init initial_value name w of
        (w1, state) \<Rightarrow>
          (let w2 = State_subscribe state (w_id widget) w1;
               handle = \<lparr>h_state = state, h_name = name\<rparr>
           in (if name_given name then connect_effects widget (the name) state w2 else w2,
               handle)))"

text \<open>
  The \<open>dispatch\<close> closures: of \<open>use_reducer\<close> (it ends in \<open>state.set\<close>), of
  \<open>use_model_reducer\<close> (it ends in \<open>state.replace\<close>) and of \<open>StoreProvider.__init__\<close>
  (it reads \<open>store._reducer\<close> and \<open>self._state\<close>, and ends in \<open>set\<close>).
\<close>

datatype dispatch_closure =
    ReducerDispatch reducer nat
  | ModelReducerDispatch reducer nat
  | ProviderDispatch store nat

fun dispatch ::
  "callables \<Rightarrow> nat \<Rightarrow> dispatch_closure \<Rightarrow> val \<Rightarrow> world \<Rightarrow> world \<times> exn option" where
  "dispatch app n (ReducerDispatch reducer state) action w =
     (case reducer (State_get state w) action of
        Inl e \<Rightarrow> (w, Some e)
      | Inr new_value \<Rightarrow> State_set app n state new_value w)"
| "dispatch app n (ModelReducerDispatch reducer state) action w =
     (case reducer (State_get state w) action of
        Inl e \<Rightarrow> (w, Some e)
      | Inr new_value \<Rightarrow> ModelState_replace app n state new_value w)"
| "dispatch app n (ProviderDispatch st state) action w =
     (case s_reducer st (State_get state w) action of
        Inl e \<Rightarrow> (w, Some e)
      | Inr new_value \<Rightarrow> State_set app n state new_value w)"

record reducer_handle =
  rh_state :: nat
  rh_dispatch :: dispatch_closure
  rh_name :: "string option"

definition use_reducer ::
  "widget \<Rightarrow> reducer \<Rightarrow> val \<Rightarrow> string option \<Rightarrow> world \<Rightarrow> world \<times> reducer_handle" where
  "use_reducer widget reducer initial_value name w =
     (case State_init initial_value name w of
        (w1, state) \<Rightarrow>
          (let w2 = State_subscribe state (w_id widget) w1;
               handle = \<lparr>rh_state = state, rh_dispatch = ReducerDispatch reducer state,
                         rh_name = name\<rparr>
           in (if name_given name then connect_effects widget (the name) state w2 else w2,
               handle)))"

definition use_model_reducer ::
  "widget \<Rightarrow> reducer \<Rightarrow> val \<Rightarrow> string option \<Rightarrow> world \<Rightarrow> world \<times> reducer_handle" where
  "use_model_reducer widget reducer initial_value name w =
     (case ModelState_init initial_value name w of
        (w1, state) \<Rightarrow>
          (let w2 = State_subscribe state (w_id widget) w1;
               handle = \<lparr>rh_state = state, rh_dispatch = ModelReducerDispatch reducer state,
                         rh_name = name\<rparr>
           in (if name_given name then connect_effects widget (the name) state w2 else w2,
               handle)))"

text \<open>
  \<open>use_derived\<close>, given the cells of its source handles (one source is a list of one).
  The selector runs before the derived cell exists; if it raises, nothing was created.
\<close>

fun watch_sources :: "callback \<Rightarrow> nat list \<Rightarrow> world \<Rightarrow> world" where
  "watch_sources cb [] w = w"
| "watch_sources cb (src # srcs) w = watch_sources cb srcs (fst (State_watch src cb w))"

definition use_derived ::
  "widget \<Rightarrow> nat list \<Rightarrow> (val list \<Rightarrow> exn + val) \<Rightarrow> string option \<Rightarrow> world
     \<Rightarrow> world \<times> (exn + state_handle)" where
  "use_derived widget sources selector name w =
     (case apply_selector selector sources (get_values sources w) of
        Inl e \<Rightarrow> (w, Inl e)
      | Inr initial_computed \<Rightarrow>
          (case State_init initial_computed name w of
             (w1, derived_state) \<Rightarrow>
               (let w2 = State_subscribe derived_state (w_id widget) w1;
                    w3 = watch_sources (OnSourceChange sources selector derived_state)
                           sources w2;
                    handle = \<lparr>h_state = derived_state, h_name = name\<rparr>
                in (if name_given name
                    then connect_effects widget (the name) derived_state w3 else w3,
                    Inr handle))))"

section \<open>Contexts\<close>

text \<open>
  \<open>ContextProvider.__init__\<close> runs \<open>State(value, name=context.name)\<close>. The names it can
  see are its parameters and the names the module binds (no builtin is called
  \<open>context\<close>); a name that is not among them raises \<open>NameError\<close> when the arguments
  of the call are evaluated, before any cell is made.
\<close>

definition ContextProvider_init_names :: "string list" where
  "ContextProvider_init_names =
     [''self'', ''reactive_context'', ''value'', ''children'', ''name'', ''id'',
      ''classes'',
      ''annotations'', ''Any'', ''Callable'', ''Generic'', ''TypeVar'', ''overload'',
      ''WeakValueDictionary'', ''BaseModel'', ''Widget'', ''Container'', ''App'',
      ''ModelState'', ''State'', ''StateChanged'', ''T'', ''S'',
      ''ContextNotFoundError'', ''Context'', ''ModelContext'', ''create_context'',
      ''create_model_context'', ''ContextProvider'', ''ContextHandle'',
      ''ModelContextHandle'', ''_find_provider'', ''use_context'', ''provide_context'']"

definition ContextProvider_init ::
  "py_context \<Rightarrow> val \<Rightarrow> nat \<Rightarrow> pytype \<Rightarrow> widget option \<Rightarrow> world \<Rightarrow> world \<times> (exn + widget)" where
  "ContextProvider_init reactive_context v wid ty parent w =
     (if ''context'' \<in> set ContextProvider_init_names
      then (case State_init v (ctx_name reactive_context) w of
              (w1, state) \<Rightarrow>
                (w1, Inr (Widget wid ty (ContextProviderW reactive_context state) parent)))
      else (w, Inl (NameError ''context'')))"

text \<open>
  \<open>ContextHandle\<close> declares \<open>__slots__\<close> and its bases have none but empty ones, so its
  instances have no \<open>__dict__\<close>: assigning an attribute that is not a slot raises
  \<open>AttributeError\<close>. \<open>ModelContextHandle\<close> declares no \<open>__slots__\<close>, so its instances
  have a \<open>__dict__\<close> and take any attribute.
\<close>

record context_handle =
  ch_state :: nat
  ch_widget :: nat
  ch_context :: nat
  ch_is_default :: bool

definition ContextHandle_slots :: "string list" where
  "ContextHandle_slots = [''_state'', ''_widget'', ''_context'', ''_is_default'']"

definition ContextHandle_init_assigns :: "string list" where
  "ContextHandle_init_assigns = [''_state'', ''_widget'', ''_rx_context'', ''_is_default'']"

definition ContextHandle_init ::
  "nat \<Rightarrow> widget \<Rightarrow> py_context \<Rightarrow> bool \<Rightarrow> exn + context_handle" where
  "ContextHandle_init state widget ctx is_default =
     (case find (\<lambda>a. a \<notin> set ContextHandle_slots) ContextHandle_init_assigns of
        Some a \<Rightarrow> Inl (AttributeError a)
      | None \<Rightarrow>
          Inr \<lparr>ch_state = state, ch_widget = w_id widget, ch_context = ctx_id ctx,
               ch_is_default = is_default\<rparr>)"

definition ModelContextHandle_init ::
  "nat \<Rightarrow> widget \<Rightarrow> py_context \<Rightarrow> bool \<Rightarrow> exn + context_handle" where
  "ModelContextHandle_init state widget ctx is_default =
     Inr \<lparr>ch_state = state, ch_widget = w_id widget, ch_context = ctx_id ctx,
          ch_is_default = is_default\<rparr>"

text \<open>\<open>_find_provider\<close>: the walk up the parents, starting at the widget itself.\<close>

fun is_provider_of :: "wkind \<Rightarrow> py_context \<Rightarrow> bool" where
  "is_provider_of (ContextProviderW c state) ctx = (ctx_id c = ctx_id ctx)"
| "is_provider_of k ctx = False"

fun find_provider :: "widget \<Rightarrow> py_context \<Rightarrow> widget option" where
  "find_provider (Widget wid ty kind parent) ctx =
     (if is_provider_of kind ctx then Some (Widget wid ty kind parent)
      else (case parent of None \<Rightarrow> None | Some p \<Rightarrow> find_provider p ctx))"

text \<open>
  \<open>provider._state\<close> and \<open>provider._dispatch\<close>: reading an attribute that the object
  does not have raises \<open>AttributeError\<close>.
\<close>

fun get_state :: "widget \<Rightarrow> exn + nat" where
  "get_state (Widget wid ty (ContextProviderW c state) parent) = Inr state"
| "get_state (Widget wid ty (StoreProviderW st state) parent) = Inr state"
| "get_state (Widget wid ty PlainWidget parent) = Inl (AttributeError ''_state'')"

text \<open>The text of \<open>ContextNotFoundError\<close>; \<open>context.name or "unnamed"\<close>.\<close>

fun name_or_unnamed :: "string option \<Rightarrow> string" where
  "name_or_unnamed None = ''unnamed''"
| "name_or_unnamed (Some s) = (if s = [] then ''unnamed'' else s)"

definition ContextNotFoundError_init :: "py_context \<Rightarrow> widget \<Rightarrow> exn" where
  "ContextNotFoundError_init ctx widget =
     ContextNotFoundError (ctx_id ctx) (w_id widget)
       (''Context '' @ [CHR 0x27] @ name_or_unnamed (ctx_name ctx) @ [CHR 0x27]
        @ '' not found in widget tree for '' @ t_name (w_type widget)
        @ ''. Make sure a ContextProvider is mounted above this widget.'')"

definition use_context ::
  "widget \<Rightarrow> py_context \<Rightarrow> bool \<Rightarrow> bool \<Rightarrow> world \<Rightarrow> world \<times> (exn + context_handle)" where
  "use_context widget ctx subscribe required w =
     (case find_provider widget ctx of
        None \<Rightarrow>
          (if required then (w, Inl (ContextNotFoundError_init ctx widget))
           else
             (case State_init (ctx_default_value ctx) (ctx_name ctx) w of
                (w1, state) \<Rightarrow>
                  (let w2 = (if subscribe then State_subscribe state (w_id widget) w1 else w1)
                   in (w2, if ctx_is_model ctx
                           then ModelContextHandle_init state widget ctx True
                           else ContextHandle_init state widget ctx True))))
      | Some provider \<Rightarrow>
          (case get_state provider of
             Inl e \<Rightarrow> (w, Inl e)
           | Inr state \<Rightarrow>
               (let w2 = (if subscribe then State_subscribe state (w_id widget) w else w)
                in (w2, if ctx_is_model ctx
                        then ModelContextHandle_init state widget ctx False
                        else ContextHandle_init state widget ctx False))))"

section \<open>Stores\<close>

definition StoreProvider_init ::
  "store \<Rightarrow> nat \<Rightarrow> pytype \<Rightarrow> widget option \<Rightarrow> world \<Rightarrow> world \<times> widget" where
  "StoreProvider_init st wid ty parent w =
     (case (if is_BaseModel (s_initial st)
            then ModelState_init (s_initial st) (s_name st) w
            else State_init (s_initial st) (s_name st) w) of
        (w1, state) \<Rightarrow> (w1, Widget wid ty (StoreProviderW st state) parent))"

text \<open>\<open>provider._dispatch\<close>: the closure made in \<open>StoreProvider.__init__\<close>.\<close>

fun get_dispatch :: "widget \<Rightarrow> exn + dispatch_closure" where
  "get_dispatch (Widget wid ty (StoreProviderW st state) parent) =
     Inr (ProviderDispatch st state)"
| "get_dispatch (Widget wid ty k parent) = Inl (AttributeError ''_dispatch'')"

fun is_store_provider_of :: "wkind \<Rightarrow> store \<Rightarrow> bool" where
  "is_store_provider_of (StoreProviderW s state) st = (s_id s = s_id st)"
| "is_store_provider_of k st = False"

fun Store_find_provider :: "store \<Rightarrow> widget \<Rightarrow> widget option" where
  "Store_find_provider st (Widget wid ty kind parent) =
     (if is_store_provider_of kind st then Some (Widget wid ty kind parent)
      else (case parent of None \<Rightarrow> None | Some p \<Rightarrow> Store_find_provider st p))"

record store_handle =
  sh_state :: nat
  sh_dispatch :: dispatch_closure
  sh_store :: nat

definition Store_use ::
  "store \<Rightarrow> widget \<Rightarrow> bool \<Rightarrow> world \<Rightarrow> world \<times> (exn + store_handle)" where
  "Store_use st widget subscribe w =
     (case Store_find_provider st widget of
        None \<Rightarrow>
          (w, Inl (RuntimeError
             (''Store '' @ [CHR 0x27] @ name_or_unnamed (s_name st) @ [CHR 0x27]
              @ '' not found in widget tree. Make sure a provider is mounted above ''
              @ t_name (w_type widget) @ ''.'')))
      | Some provider \<Rightarrow>
          (case get_state provider of
             Inl e \<Rightarrow> (w, Inl e)
           | Inr state \<Rightarrow>
               (let w1 = (if subscribe then State_subscribe state (w_id widget) w else w);
                    w2 = connect_store_effects widget st state w1
                in (case get_dispatch provider of
                      Inl e \<Rightarrow> (w2, Inl e)
                    | Inr d \<Rightarrow>
                        (w2, Inr \<lparr>sh_state = state, sh_dispatch = d,
                                     sh_store = s_id st\<rparr>)))))"

text \<open>A caller that dispatches a list of actions, going on after an exception.\<close>

fun dispatch_all ::
  "callables \<Rightarrow> nat \<Rightarrow> dispatch_closure \<Rightarrow> val list \<Rightarrow> world \<Rightarrow> world" where
  "dispatch_all app n d [] w = w"
| "dispatch_all app n d (a # as) w = dispatch_all app n d as (fst (dispatch app n d a w))"

section \<open>Notions used in the statements\<close>

text \<open>
  \<open>is_app\<close>: a watcher that is application code (a callback or an effect method), not
  the closure of a derivation. \<open>outcome\<close>: the exception such a watcher raises when
  called with the old and the new value, if any. \<open>call_event\<close>: what its call leaves in
  the trace. \<open>add_trace\<close> appends events to the trace.
\<close>

fun is_app :: "callback \<Rightarrow> bool" where
  "is_app (OnSourceChange sources selector d) = False"
| "is_app cb = True"

fun outcome :: "callback \<Rightarrow> val \<Rightarrow> val \<Rightarrow> exn option" where
  "outcome (Callback i f) old new = f old new"
| "outcome (EffectLambda wid m f) old new = f old new"
| "outcome (OnSourceChange sources selector d) old new = None"

fun call_event :: "callback \<Rightarrow> val \<Rightarrow> val \<Rightarrow> event" where
  "call_event (Callback i f) old new = CallbackCalled i old new"
| "call_event (EffectLambda wid m f) old new = MethodCalled wid m old new"
| "call_event (OnSourceChange sources selector d) old new = CallbackCalled 0 old new"

definition returns_normally :: "val \<Rightarrow> val \<Rightarrow> callback \<Rightarrow> bool" where
  "returns_normally old new cb = (is_app cb \<and> outcome cb old new = None)"

definition add_trace :: "event list \<Rightarrow> world \<Rightarrow> world" where
  "add_trace evs w = w\<lparr>trace := trace w @ evs\<rparr>"

text \<open>
  \<open>wired_like wd W r\<close>: in the world \<open>W\<close> the cell \<open>r\<close> has the watchers and the
  subscribers that it has in \<open>wd\<close>; its value may differ.
\<close>

definition wired_like :: "world \<Rightarrow> world \<Rightarrow> nat \<Rightarrow> bool" where
  "wired_like wd W r \<longleftrightarrow>
     c_watchers (cells W r) = c_watchers (cells wd r) \<and>
     c_subscribers (cells W r) = c_subscribers (cells wd r)"

text \<open>
  \<open>append_watchers\<close>: what a sequence of \<open>watch\<close> calls on one cell does to the world.
  \<open>ancestors\<close>: a widget and its parents, nearest first.
\<close>

definition append_watchers :: "nat \<Rightarrow> callback list \<Rightarrow> world \<Rightarrow> world" where
  "append_watchers r extra w =
     w\<lparr>cells := (cells w)(r := (cells w r)\<lparr>c_watchers := c_watchers (cells w r) @ extra\<rparr>)\<rparr>"

fun ancestors :: "widget \<Rightarrow> widget list" where
  "ancestors (Widget wid ty kind parent) =
     Widget wid ty kind parent # (case parent of None \<Rightarrow> [] | Some p \<Rightarrow> ancestors p)"

section \<open>Example worlds\<close>

text \<open>
  Small worlds and application functions on which the theorems below are evaluated:
  an empty heap, a cell holding 5 with one watcher and one subscriber, a cell with
  three watchers the second of which raises, an updater that raises, a reducer that
  raises, a callable that returns itself and the updater \<open>lambda x: x + 1\<close>.
\<close>

definition empty_world :: world where
  "empty_world =
     \<lparr>cells = (\<lambda>r. \<lparr>c_value = VNone, c_subscribers = [], c_watchers = [], c_name = None\<rparr>),
      next_ref = 0, trace = []\<rparr>"

definition no_callables :: callables where
  "no_callables f x = Inl (TypeError ''not callable'')"

definition quiet :: "val \<Rightarrow> val \<Rightarrow> exn option" where
  "quiet old new = None"

definition failing :: "val \<Rightarrow> val \<Rightarrow> exn option" where
  "failing old new = Some (Raised 7)"

definition world5 :: world where
  "world5 = fst (State_watch 0 (Callback 10 quiet)
                  (State_subscribe 0 9 (fst (State_init (VInt 5) None empty_world))))"

definition world_failing :: world where
  "world_failing =
     fst (State_watch 0 (Callback 30 quiet)
       (fst (State_watch 0 (Callback 20 failing)
         (fst (State_watch 0 (Callback 10 quiet)
           (State_subscribe 0 9 (fst (State_init (VInt 0) None empty_world))))))))"

definition div_by_zero :: callables where
  "div_by_zero f x = Inl (Raised 0)"

definition bad_reducer :: reducer where
  "bad_reducer s a = Inl (Raised 0)"

definition world_one :: world where
  "world_one = fst (State_init (VInt 0) None empty_world)"

definition world_watched :: world where
  "world_watched = fst (State_watch 0 (Callback 10 quiet) world_one)"

definition unwatch1 :: unwatch_closure where
  "unwatch1 = snd (State_watch 0 (Callback 10 quiet) world_one)"

definition returns_itself :: callables where
  "returns_itself f x = Inr (VFun f)"

definition increment :: callables where
  "increment f x = (case x of VInt i \<Rightarrow> Inr (VInt (i + 1)) | _ \<Rightarrow> Inl (TypeError ''int''))"

text \<open>
  A class \<open>Derived\<close> that inherits an effect method for the state \<open>n\<close> and defines
  nothing itself; a plain context named \<open>counter\<close>, a widget with no provider above it
  and a widget below two providers of that context; two cells 3 and 4 with their sum as
  a derivation, and that world after the second cell was set to 20; a counting store
  mounted twice under one root, with a consumer below
  the first mount.
\<close>

definition base_namespace :: namespace where
  "base_namespace =
     [(''post_message'', Function None quiet),
      (''on_n'', Function (Some [TName ''n'']) quiet)]"

definition derived_type :: pytype where
  "derived_type = \<lparr>t_name = ''Derived'', t_mro = [[], base_namespace]\<rparr>"

definition derived_widget :: widget where
  "derived_widget = Widget 9 derived_type PlainWidget None"

definition counter_context :: py_context where
  "counter_context =
     \<lparr>ctx_id = 0, ctx_default_value = VInt 0, ctx_name = Some ''counter'',
      ctx_is_model = False\<rparr>"

definition plain_type :: pytype where
  "plain_type = \<lparr>t_name = ''MyWidget'', t_mro = [[]]\<rparr>"

definition lone_widget :: widget where
  "lone_widget = Widget 9 plain_type PlainWidget None"

definition provider_type :: pytype where
  "provider_type = \<lparr>t_name = ''ContextProvider'', t_mro = [[]]\<rparr>"

definition nested_consumer :: widget where
  "nested_consumer =
     Widget 9 plain_type PlainWidget
       (Some (Widget 8 provider_type (ContextProviderW counter_context 4)
          (Some (Widget 7 provider_type (ContextProviderW counter_context 3) None))))"

definition sum_selector :: "val list \<Rightarrow> exn + val" where
  "sum_selector vs =
     (case vs of [VInt x, VInt y] \<Rightarrow> Inr (VInt (x + y)) | _ \<Rightarrow> Inl (TypeError ''sum''))"

definition sum_type :: pytype where
  "sum_type =
     \<lparr>t_name = ''Sum'', t_mro = [[(''on_sum'', Function (Some [TName ''sum'']) quiet)]]\<rparr>"

definition sum_widget :: widget where
  "sum_widget = Widget 9 sum_type PlainWidget None"

definition world_ab :: world where
  "world_ab =
     fst (use_state sum_widget (VInt 4) (Some ''b'')
       (fst (use_state sum_widget (VInt 3) (Some ''a'') empty_world)))"

definition world_sum :: world where
  "world_sum = fst (use_derived sum_widget [0, Suc 0] sum_selector (Some ''sum'') world_ab)"

definition count_reducer :: reducer where
  "count_reducer s a =
     (case s of VInt i \<Rightarrow> (if a = VStr ''inc'' then Inr (VInt (i + 1)) else Inr s)
      | _ \<Rightarrow> Inr s)"

definition counter_store :: store where
  "counter_store =
     \<lparr>s_id = 0, s_reducer = count_reducer, s_initial = VInt 0, s_name = Some ''counter''\<rparr>"

definition root_widget :: widget where
  "root_widget = Widget 2 plain_type PlainWidget None"

definition mount_a :: "world \<times> widget" where
  "mount_a = StoreProvider_init counter_store 3 provider_type (Some root_widget) empty_world"

definition mount_b :: "world \<times> widget" where
  "mount_b = StoreProvider_init counter_store 4 provider_type (Some root_widget) (fst mount_a)"

definition consumer_a :: widget where
  "consumer_a = Widget 5 plain_type PlainWidget (Some (snd mount_a))"

definition used_a :: "world \<times> (exn + store_handle)" where
  "used_a = Store_use counter_store consumer_a True (fst mount_b)"

definition handle_a :: store_handle where
  "handle_a = \<lparr>sh_state = 0, sh_dispatch = ProviderDispatch counter_store 0, sh_store = 0\<rparr>"

definition world_b20 :: world where
  "world_b20 = fst (State_set no_callables (Suc 0) (Suc 0) (VInt 20) world_sum)"

text \<open>
  A derivation of one cell whose selector raises on values of 4 and more; and a
  derivation of the cells 3 and 4 whose selector returns a callable, with the callable
  that returns 42.
\<close>

definition small_only :: "val list \<Rightarrow> exn + val" where
  "small_only vs =
     (case vs of
        [VInt i] \<Rightarrow> (if i < 4 then Inr (VInt i) else Inl (Raised 0))
      | _ \<Rightarrow> Inl (TypeError ''small_only''))"

definition world_three :: world where
  "world_three = fst (use_state lone_widget (VInt 3) None empty_world)"

definition world_small :: world where
  "world_small = fst (use_derived lone_widget [0] small_only None world_three)"

definition returns_42 :: callables where
  "returns_42 fn cur = Inr (VInt 42)"

definition always_fn :: "val list \<Rightarrow> exn + val" where
  "always_fn vs = Inr (VFun 0)"

definition world_fn :: world where
  "world_fn = fst (use_derived sum_widget [0, Suc 0] always_fn (Some ''sum'') world_ab)"

text \<open>A store whose reducer raises and a selector that raises.\<close>

definition bad_store :: store where
  "bad_store = \<lparr>s_id = 5, s_reducer = bad_reducer, s_initial = VInt 5, s_name = None\<rparr>"

definition bad_selector :: "val list \<Rightarrow> exn + val" where
  "bad_selector vs = Inl (Raised 0)"

text \<open>A model value and a cell that holds it.\<close>

definition alice :: val where
  "alice = VModel ''User'' [(''name'', VStr ''Alice''), (''age'', VInt 30)]"

definition world_user :: world where
  "world_user = fst (State_watch 0 (Callback 10 quiet)
                  (State_subscribe 0 9 (fst (ModelState_init alice None empty_world))))"

section \<open>Basic facts about cells\<close>

declare State_set.simps [simp del] State_set_value.simps [simp del]

lemma State_set_literal: "\<not> callable v \<Longrightarrow> State_set app n r v w = State_set_value app n r v w"
  by (simp add: State_set.simps)

lemma State_set_value_equal:
  "values_equal (c_value (cells w r)) v \<Longrightarrow> State_set_value app n r v w = (w, None)"
  by (simp add: State_set_value.simps)

lemma State_set_value_changed:
  "\<not> values_equal (c_value (cells w r)) v \<Longrightarrow>
   State_set_value app n r v w =
     (case notify_watchers app n (c_watchers (cells w r)) (c_value (cells w r)) v
             (store_value r v w) of
        (w', Some e) \<Rightarrow> (w', Some e)
      | (w', None) \<Rightarrow>
          (post_messages r (c_value (cells w r)) v (c_subscribers (cells w' r)) w', None))"
  by (simp add: State_set_value.simps Let_def)

lemma add_trace_Nil: "add_trace [] w = w"
  by (simp add: add_trace_def)

lemma add_trace_add_trace: "add_trace ys (add_trace xs w) = add_trace (xs @ ys) w"
  by (simp add: add_trace_def)

lemma log_event_add_trace: "log_event ev w = add_trace [ev] w"
  by (simp add: log_event_def add_trace_def)

lemma get_values_add_trace: "get_values sources (add_trace evs w) = get_values sources w"
  by (simp add: get_values_def add_trace_def)

lemma post_messages_trace:
  "post_messages r old new wids w = add_trace (map (\<lambda>wid. Posted wid r old new) wids) w"
  by (induction wids arbitrary: w) (simp_all add: add_trace_Nil log_event_add_trace add_trace_add_trace)

lemma notify_watchers_prefix:
  "list_all (returns_normally old new) pre \<Longrightarrow>
   notify_watchers app n (pre @ rest) old new w =
   notify_watchers app n rest old new (add_trace (map (\<lambda>c. call_event c old new) pre) w)"
proof (induction pre arbitrary: w)
  case Nil
  then show ?case by (simp add: add_trace_Nil)
next
  case (Cons c pre)
  then show ?case
    by (cases c) (simp_all add: returns_normally_def log_event_add_trace add_trace_add_trace)
qed

lemma notify_watchers_raises:
  "is_app cb \<Longrightarrow> outcome cb old new = Some e \<Longrightarrow>
   notify_watchers app n (cb # rest) old new w = (add_trace [call_event cb old new] w, Some e)"
  by (cases cb) (simp_all add: log_event_add_trace)

lemma notify_watchers_cells:
  "list_all is_app cbs \<Longrightarrow> cells (fst (notify_watchers app n cbs old new w)) = cells w"
proof (induction cbs arbitrary: w)
  case Nil
  then show ?case by simp
next
  case (Cons c cbs)
  then show ?case
    by (cases c) (simp_all add: log_event_def split: option.splits)
qed

lemma State_set_value_stored:
  assumes "list_all is_app (c_watchers (cells w r))"
  shows "State_get r (fst (State_set_value app n r v w)) =
         (if values_equal (State_get r w) v then State_get r w else v)"
proof (cases "values_equal (State_get r w) v")
  case True
  then show ?thesis by (simp add: State_get_def State_set_value_equal)
next
  case False
  obtain w' x where nw: "notify_watchers app n (c_watchers (cells w r)) (c_value (cells w r)) v
      (store_value r v w) = (w', x)"
    by (cases "notify_watchers app n (c_watchers (cells w r)) (c_value (cells w r)) v
      (store_value r v w)")
  from notify_watchers_cells [OF assms, of app n "c_value (cells w r)" v "store_value r v w"] nw
  have c: "cells w' = cells (store_value r v w)" by simp
  show ?thesis
    using False nw c
    by (cases x) (simp_all add: State_get_def State_set_value_changed post_messages_trace
        add_trace_def store_value_def)
qed

section \<open>Setting a cell\<close>

text \<open>
  The gate on models: the dumps are compared, so neither the class nor the order of the
  fields matters, and one differing field makes two models differ.
\<close>

lemma alice_equal:
  "values_equal alice (VModel ''Person'' [(''age'', VInt 30), (''name'', VStr ''Alice'')])"
  by (simp add: alice_def values_equal_def model_dump_def)

lemma alice_differs:
  "\<not> values_equal alice (VModel ''User'' [(''name'', VStr ''Alice''), (''age'', VInt 31)])"
  by (simp add: alice_def values_equal_def model_dump_def)

text \<open>
  C2. Setting a cell to a value that the comparison of \<open>_set_value\<close> finds equal to the
  current one (two models by their dumps, anything else by \<open>==\<close>) changes nothing: the
  world after the call is the world before it, so no watcher was called, no message was
  posted and the stored value is the one that was there. This holds for \<open>_set_value\<close>
  and the two methods that only call it, and for \<open>set\<close> with a value that is not
  callable (a callable is an updater, see C9).
\<close>

theorem set_equal_value_is_noop:
  "values_equal (State_get r w) v \<longrightarrow>
     State_set_value app n r v w = (w, None) \<and>
     State_value_setter app n r v w = (w, None) \<and>
     ModelState_replace app n r v w = (w, None) \<and>
     (\<not> callable v \<longrightarrow> State_set app n r v w = (w, None))"
  by (simp add: State_get_def State_value_setter_def ModelState_replace_def
      State_set_literal State_set_value_equal)

theorem set_equal_value_is_noop_witness:
  "values_equal (State_get 0 world5) (VInt 5) \<and> \<not> callable (VInt 5) \<and>
   c_watchers (cells world5 0) = [Callback 10 quiet] \<and>
   c_subscribers (cells world5 0) = [9] \<and>
   State_set no_callables 0 0 (VInt 5) world5 = (world5, None) \<and>
   values_equal (State_get 0 world_user)
     (VModel ''User'' [(''name'', VStr ''Alice''), (''age'', VInt 30)]) \<and>
   ModelState_replace no_callables 0 0
     (VModel ''User'' [(''name'', VStr ''Alice''), (''age'', VInt 30)]) world_user =
     (world_user, None)"
proof -
  have h: "values_equal (State_get 0 world5) (VInt 5)"
    by (simp add: world5_def empty_world_def State_init_def State_subscribe_def
        State_watch_def State_get_def values_equal_def)
  have c: "\<not> callable (VInt 5)" by simp
  have l: "c_watchers (cells world5 0) = [Callback 10 quiet] \<and>
   c_subscribers (cells world5 0) = [9]"
    by (simp add: world5_def empty_world_def State_init_def State_subscribe_def
        State_watch_def)
  from set_equal_value_is_noop [where r = 0 and w = world5 and v = "VInt 5"
      and app = no_callables and n = 0] h c
  have s: "State_set no_callables 0 0 (VInt 5) world5 = (world5, None)" by blast
  have u: "State_get 0 world_user = alice"
    by (simp add: world_user_def empty_world_def ModelState_init_def State_init_def
        State_subscribe_def State_watch_def State_get_def)
  have hm: "values_equal (State_get 0 world_user)
     (VModel ''User'' [(''name'', VStr ''Alice''), (''age'', VInt 30)])"
    by (simp add: u alice_def values_equal_def model_dump_def)
  from set_equal_value_is_noop [where r = 0 and w = world_user
      and v = "VModel ''User'' [(''name'', VStr ''Alice''), (''age'', VInt 30)]"
      and app = no_callables and n = 0] hm
  have m: "ModelState_replace no_callables 0 0
     (VModel ''User'' [(''name'', VStr ''Alice''), (''age'', VInt 30)]) world_user =
     (world_user, None)" by blast
  from h c l s hm m show ?thesis by blast
qed

lemma world_small_cells:
  "cells world_small 0 = \<lparr>c_value = VInt 3, c_subscribers = [9],
      c_watchers = [OnSourceChange [0] small_only (Suc 0)], c_name = None\<rparr>"
  "cells world_small (Suc 0) = \<lparr>c_value = VInt 3, c_subscribers = [9], c_watchers = [],
      c_name = None\<rparr>"
  "trace world_small = []"
  by (simp_all add: world_small_def world_three_def use_state_def use_derived_def
      apply_selector_def get_values_def small_only_def State_init_def State_subscribe_def
      State_watch_def empty_world_def lone_widget_def Let_def)

text \<open>
  C3, as the claim states it, fails for the selector of a derivation: when it raises
  while its source is being set, the exception reaches the caller of \<open>set\<close>, but the
  cell that \<open>set\<close> was called on already holds the new value.
\<close>

theorem selector_raises_after_commit_counterexample:
  "State_get 0 world_small = VInt 3 \<and>
   snd (State_set no_callables (Suc 0) 0 (VInt 4) world_small) = Some (Raised 0) \<and>
   State_get 0 (fst (State_set no_callables (Suc 0) 0 (VInt 4) world_small)) = VInt 4 \<and>
   State_get (Suc 0) (fst (State_set no_callables (Suc 0) 0 (VInt 4) world_small)) = VInt 3 \<and>
   trace (fst (State_set no_callables (Suc 0) 0 (VInt 4) world_small)) = []"
  by (simp add: State_get_def world_small_cells State_set_literal State_set_value_changed
      values_equal_def store_value_def apply_selector_def get_values_def small_only_def)

text \<open>
  C3, amended. When the updater passed to \<open>set\<close> raises, or the reducer of a
  \<open>dispatch\<close> closure raises, the call returns that exception and the world is
  unchanged: the value is computed before \<open>_set_value\<close> is reached. When the selector
  of a derivation raises while a source is being set (the watchers before the
  derivation's having returned), the call of \<open>set\<close> returns that exception and the
  derived cell keeps its value, but the source cell holds the new value: the world is
  the one with the new value stored and the calls of the earlier watchers in the trace,
  so the later watchers were not called and no message was posted.
\<close>

theorem raising_function_propagates:
  "(callable v \<and> call_value app v (State_get r w) = Inl e \<longrightarrow>
      State_set app n r v w = (w, Some e)) \<and>
   (reducer (State_get r w) action = Inl e \<longrightarrow>
      dispatch app n (ReducerDispatch reducer r) action w = (w, Some e) \<and>
      dispatch app n (ModelReducerDispatch reducer r) action w = (w, Some e)) \<and>
   (s_reducer st (State_get r w) action = Inl e \<longrightarrow>
      dispatch app n (ProviderDispatch st r) action w = (w, Some e)) \<and>
   (\<not> callable x \<and> \<not> values_equal (State_get a w) x \<and>
    c_watchers (cells w a) = pre @ OnSourceChange sources f d # post \<and>
    list_all (returns_normally (State_get a w) x) pre \<and>
    apply_selector f sources (get_values sources (store_value a x w)) = Inl e \<longrightarrow>
      State_set app (Suc n) a x w =
        (add_trace (map (\<lambda>c. call_event c (State_get a w) x) pre) (store_value a x w),
         Some e) \<and>
      State_get a (fst (State_set app (Suc n) a x w)) = x \<and>
      (d \<noteq> a \<longrightarrow> State_get d (fst (State_set app (Suc n) a x w)) = State_get d w))"
proof -
  have first: "(callable v \<and> call_value app v (State_get r w) = Inl e \<longrightarrow>
      State_set app n r v w = (w, Some e)) \<and>
   (reducer (State_get r w) action = Inl e \<longrightarrow>
      dispatch app n (ReducerDispatch reducer r) action w = (w, Some e) \<and>
      dispatch app n (ModelReducerDispatch reducer r) action w = (w, Some e)) \<and>
   (s_reducer st (State_get r w) action = Inl e \<longrightarrow>
      dispatch app n (ProviderDispatch st r) action w = (w, Some e))"
    by (simp add: State_get_def State_set.simps)
  have whole: "State_set app (Suc n) a x w =
        (add_trace (map (\<lambda>c. call_event c (State_get a w) x) pre) (store_value a x w),
         Some e) \<and>
      State_get a (fst (State_set app (Suc n) a x w)) = x \<and>
      (d \<noteq> a \<longrightarrow> State_get d (fst (State_set app (Suc n) a x w)) = State_get d w)"
    if lit: "\<not> callable x" and acc: "\<not> values_equal (State_get a w) x"
      and ws: "c_watchers (cells w a) = pre @ OnSourceChange sources f d # post"
      and pre: "list_all (returns_normally (State_get a w) x) pre"
      and sel: "apply_selector f sources (get_values sources (store_value a x w)) = Inl e"
  proof -
    let ?old = "State_get a w"
    let ?W0 = "add_trace (map (\<lambda>c. call_event c ?old x) pre) (store_value a x w)"
    have "notify_watchers app (Suc n) (pre @ OnSourceChange sources f d # post) ?old x
            (store_value a x w) =
          notify_watchers app (Suc n) (OnSourceChange sources f d # post) ?old x ?W0"
      by (rule notify_watchers_prefix [OF pre])
    also have "\<dots> = (?W0, Some e)"
      using sel by (simp add: get_values_add_trace)
    finally have nw: "notify_watchers app (Suc n) (c_watchers (cells w a)) (c_value (cells w a)) x
        (store_value a x w) = (?W0, Some e)"
      by (simp add: ws State_get_def)
    have res: "State_set app (Suc n) a x w = (?W0, Some e)"
      using lit acc nw by (simp add: State_set_literal State_set_value_changed State_get_def)
    have va: "State_get a (fst (State_set app (Suc n) a x w)) = x"
      by (simp add: res State_get_def add_trace_def store_value_def)
    have vd: "d \<noteq> a \<longrightarrow> State_get d (fst (State_set app (Suc n) a x w)) = State_get d w"
      by (simp add: res State_get_def add_trace_def store_value_def)
    from res va vd show ?thesis by blast
  qed
  from first whole show ?thesis by blast
qed

theorem raising_function_propagates_witness:
  "callable (VFun 0) \<and> call_value div_by_zero (VFun 0) (State_get 0 world5) = Inl (Raised 0) \<and>
   State_set div_by_zero 0 0 (VFun 0) world5 = (world5, Some (Raised 0)) \<and>
   bad_reducer (State_get 0 world5) VNone = Inl (Raised 0) \<and>
   dispatch div_by_zero 0 (ReducerDispatch bad_reducer 0) VNone world5 = (world5, Some (Raised 0)) \<and>
   dispatch div_by_zero 0 (ModelReducerDispatch bad_reducer 0) VNone world5 =
     (world5, Some (Raised 0)) \<and>
   s_reducer bad_store (State_get 0 world5) VNone = Inl (Raised 0) \<and>
   dispatch div_by_zero 0 (ProviderDispatch bad_store 0) VNone world5 = (world5, Some (Raised 0)) \<and>
   State_get 0 world5 = VInt 5 \<and>
   \<not> callable (VInt 4) \<and> \<not> values_equal (State_get 0 world_small) (VInt 4) \<and>
   c_watchers (cells world_small 0) = [] @ OnSourceChange [0] small_only (Suc 0) # [] \<and>
   list_all (returns_normally (State_get 0 world_small) (VInt 4)) [] \<and>
   apply_selector small_only [0] (get_values [0] (store_value 0 (VInt 4) world_small)) =
     Inl (Raised 0) \<and>
   State_set div_by_zero (Suc 0) 0 (VInt 4) world_small =
     (store_value 0 (VInt 4) world_small, Some (Raised 0)) \<and>
   State_get 0 world_small = VInt 3 \<and>
   State_get 0 (fst (State_set div_by_zero (Suc 0) 0 (VInt 4) world_small)) = VInt 4 \<and>
   State_get (Suc 0) (fst (State_set div_by_zero (Suc 0) 0 (VInt 4) world_small)) = VInt 3"
proof -
  have h1: "callable (VFun 0) \<and> call_value div_by_zero (VFun 0) (State_get 0 world5) = Inl (Raised 0)"
    by (simp add: div_by_zero_def)
  have h2: "bad_reducer (State_get 0 world5) VNone = Inl (Raised 0)"
    by (simp add: bad_reducer_def)
  have h3: "s_reducer bad_store (State_get 0 world5) VNone = Inl (Raised 0)"
    by (simp add: bad_store_def bad_reducer_def)
  have v: "State_get 0 world5 = VInt 5"
    by (simp add: world5_def empty_world_def State_init_def State_subscribe_def
        State_watch_def State_get_def)
  have va: "State_get 0 world_small = VInt 3" and vd: "State_get (Suc 0) world_small = VInt 3"
    by (simp_all add: State_get_def world_small_cells)
  have h4: "\<not> callable (VInt 4)" by simp
  have h5: "\<not> values_equal (State_get 0 world_small) (VInt 4)"
    by (simp add: va values_equal_def)
  have h6: "c_watchers (cells world_small 0) = [] @ OnSourceChange [0] small_only (Suc 0) # []"
    by (simp add: world_small_cells)
  have h7: "list_all (returns_normally (State_get 0 world_small) (VInt 4)) []" by simp
  have h8: "apply_selector small_only [0] (get_values [0] (store_value 0 (VInt 4) world_small)) =
     Inl (Raised 0)"
    by (simp add: apply_selector_def get_values_def store_value_def small_only_def)
  have ne: "Suc 0 \<noteq> (0::nat)" by simp
  from raising_function_propagates [where v = "VFun 0" and app = div_by_zero
      and r = 0 and w = world5 and e = "Raised 0" and n = 0 and reducer = bad_reducer
      and action = VNone and st = bad_store] h1 h2 h3
  have c1: "State_set div_by_zero 0 0 (VFun 0) world5 = (world5, Some (Raised 0)) \<and>
    dispatch div_by_zero 0 (ReducerDispatch bad_reducer 0) VNone world5 = (world5, Some (Raised 0)) \<and>
    dispatch div_by_zero 0 (ModelReducerDispatch bad_reducer 0) VNone world5 =
     (world5, Some (Raised 0)) \<and>
    dispatch div_by_zero 0 (ProviderDispatch bad_store 0) VNone world5 = (world5, Some (Raised 0))"
    by blast
  from raising_function_propagates [where app = div_by_zero and e = "Raised 0" and n = 0
      and x = "VInt 4" and a = 0 and w = world_small and pre = "[]" and sources = "[0]"
      and f = small_only and d = "Suc 0" and post = "[]"] h4 h5 h6 h7 h8 ne
  have c2: "State_set div_by_zero (Suc 0) 0 (VInt 4) world_small =
        (add_trace (map (\<lambda>c. call_event c (State_get 0 world_small) (VInt 4)) [])
           (store_value 0 (VInt 4) world_small), Some (Raised 0)) \<and>
      State_get 0 (fst (State_set div_by_zero (Suc 0) 0 (VInt 4) world_small)) = VInt 4 \<and>
      State_get (Suc 0) (fst (State_set div_by_zero (Suc 0) 0 (VInt 4) world_small)) =
        State_get (Suc 0) world_small"
    by blast
  from this [unfolded list.map add_trace_Nil vd]
  have c3: "State_set div_by_zero (Suc 0) 0 (VInt 4) world_small =
     (store_value 0 (VInt 4) world_small, Some (Raised 0)) \<and>
   State_get 0 (fst (State_set div_by_zero (Suc 0) 0 (VInt 4) world_small)) = VInt 4 \<and>
   State_get (Suc 0) (fst (State_set div_by_zero (Suc 0) 0 (VInt 4) world_small)) = VInt 3"
    .
  from h1 h2 h3 v h4 h5 h6 h7 h8 va c1 c3 show ?thesis by blast
qed

text \<open>
  C9, as the claim states it, fails: \<open>set(c)\<close> with a callable \<open>c\<close> that returns itself
  stores \<open>c\<close>, a callable, in the cell.
\<close>

theorem set_stores_callable_counterexample:
  "callable (VFun 7) \<and>
   State_get 0 (fst (State_set returns_itself 0 0 (VFun 7) world_one)) = VFun 7"
  by (simp add: returns_itself_def world_one_def empty_world_def State_init_def State_get_def
      State_set.simps State_set_value.simps values_equal_def store_value_def)

text \<open>
  C9, amended. \<open>set(c)\<close> with a callable \<open>c\<close> always takes \<open>c\<close> as an updater: the
  candidate value is \<open>c(current)\<close>, and on a cell whose watchers are application code
  the value stored afterwards is that result when it differs from the current value
  (and the current value otherwise, also when \<open>c\<close> raises). So \<open>c\<close> itself, or any
  other callable, is stored through \<open>set\<close> exactly when the updater returns it. The
  setter of the \<open>value\<close> property skips the test and stores \<open>c\<close> itself.
\<close>

theorem set_callable_is_updater:
  "callable c \<longrightarrow>
     State_set app n r c w =
       (case call_value app c (State_get r w) of
          Inl e \<Rightarrow> (w, Some e)
        | Inr new_value \<Rightarrow> State_set_value app n r new_value w) \<and>
     State_value_setter app n r c w = State_set_value app n r c w \<and>
     (list_all is_app (c_watchers (cells w r)) \<longrightarrow>
        State_get r (fst (State_set app n r c w)) =
          (case call_value app c (State_get r w) of
             Inl e \<Rightarrow> State_get r w
           | Inr new_value \<Rightarrow>
               if values_equal (State_get r w) new_value then State_get r w else new_value) \<and>
        State_get r (fst (State_value_setter app n r c w)) =
          (if values_equal (State_get r w) c then State_get r w else c))"
  by (simp add: State_set.simps State_value_setter_def State_get_def [symmetric]
      State_set_value_stored split: sum.splits)

theorem set_callable_is_updater_witness:
  "callable (VFun 0) \<and> list_all is_app (c_watchers (cells world5 0)) \<and>
   State_get 0 world5 = VInt 5 \<and>
   State_get 0 (fst (State_set increment 0 0 (VFun 0) world5)) = VInt 6 \<and>
   State_get 0 (fst (State_value_setter increment 0 0 (VFun 0) world5)) = VFun 0"
proof -
  have h1: "callable (VFun 0)" by simp
  have h2: "list_all is_app (c_watchers (cells world5 0))"
    by (simp add: world5_def empty_world_def State_init_def State_subscribe_def State_watch_def)
  have v: "State_get 0 world5 = VInt 5"
    by (simp add: world5_def empty_world_def State_init_def State_subscribe_def
        State_watch_def State_get_def)
  from set_callable_is_updater [where c = "VFun 0" and app = increment and n = 0 and r = 0
      and w = world5] h1 h2
  have "State_get 0 (fst (State_set increment 0 0 (VFun 0) world5)) =
          (case call_value increment (VFun 0) (State_get 0 world5) of
             Inl e \<Rightarrow> State_get 0 world5
           | Inr new_value \<Rightarrow>
               if values_equal (State_get 0 world5) new_value then State_get 0 world5 else new_value) \<and>
        State_get 0 (fst (State_value_setter increment 0 0 (VFun 0) world5)) =
          (if values_equal (State_get 0 world5) (VFun 0) then State_get 0 world5 else VFun 0)"
    by blast
  then have "State_get 0 (fst (State_set increment 0 0 (VFun 0) world5)) = VInt 6 \<and>
   State_get 0 (fst (State_value_setter increment 0 0 (VFun 0) world5)) = VFun 0"
    by (simp add: v increment_def values_equal_def)
  with h1 h2 v show ?thesis by blast
qed

section \<open>Watchers\<close>

text \<open>
  C5, as the claim states it, fails: the second call of the closure that \<open>watch\<close>
  returned raises \<open>ValueError\<close>; and when the same callback has been registered again in
  between, the second call of the first closure removes that later registration.
\<close>

theorem unwatch_twice_counterexample:
  "snd (unwatch unwatch1 (fst (unwatch unwatch1 world_watched))) =
     Some (ValueError ''list.remove(x): x not in list'') \<and>
   c_watchers (cells (fst (State_watch 0 (Callback 10 quiet)
       (fst (unwatch unwatch1 world_watched)))) 0) = [Callback 10 quiet] \<and>
   unwatch unwatch1 (fst (State_watch 0 (Callback 10 quiet)
       (fst (unwatch unwatch1 world_watched)))) = (world_one, None)"
  by (simp add: unwatch1_def world_watched_def world_one_def empty_world_def State_init_def
      State_watch_def)

text \<open>
  C5, amended. \<open>watch(callback)\<close> appends the callback to the watcher list and returns
  a closure that removes the first watcher equal to the callback, and raises
  \<open>ValueError\<close>, changing nothing, when there is none. When the callback was not
  registered before, the first call of the closure gives back the world as it was
  before \<open>watch\<close>.
\<close>

theorem unwatch_removes_first_equal_or_raises:
  "c_watchers (cells (fst (State_watch r cb w)) r) = c_watchers (cells w r) @ [cb] \<and>
   snd (State_watch r cb w) = Unwatch r cb \<and>
   (cb \<in> set (c_watchers (cells w r)) \<longrightarrow>
      snd (unwatch (Unwatch r cb) w) = None \<and>
      c_watchers (cells (fst (unwatch (Unwatch r cb) w)) r) = remove1 cb (c_watchers (cells w r))) \<and>
   (cb \<notin> set (c_watchers (cells w r)) \<longrightarrow>
      unwatch (Unwatch r cb) w = (w, Some (ValueError ''list.remove(x): x not in list'')) \<and>
      unwatch (snd (State_watch r cb w)) (fst (State_watch r cb w)) = (w, None))"
proof -
  have "(cells w)(r := cells w r) = cells w" by (rule fun_upd_triv)
  then have "w\<lparr>cells := (cells w)(r := cells w r)\<rparr> = w" by simp
  then show ?thesis
    by (simp add: State_watch_def remove1_append)
qed

theorem unwatch_removes_first_equal_or_raises_witness:
  "Callback 10 quiet \<notin> set (c_watchers (cells world_one 0)) \<and>
   unwatch (snd (State_watch 0 (Callback 10 quiet) world_one))
     (fst (State_watch 0 (Callback 10 quiet) world_one)) = (world_one, None) \<and>
   Callback 10 quiet \<in> set (c_watchers (cells (fst (State_watch 0 (Callback 10 quiet) world_one)) 0)) \<and>
   c_watchers (cells (fst (unwatch (Unwatch 0 (Callback 10 quiet))
       (fst (State_watch 0 (Callback 10 quiet) world_one)))) 0) = []"
proof -
  have h: "Callback 10 quiet \<notin> set (c_watchers (cells world_one 0))"
    by (simp add: world_one_def empty_world_def State_init_def)
  have h2: "Callback 10 quiet \<in> set (c_watchers (cells (fst (State_watch 0 (Callback 10 quiet) world_one)) 0))"
    by (simp add: State_watch_def)
  have l: "c_watchers (cells (fst (State_watch 0 (Callback 10 quiet) world_one)) 0) = [Callback 10 quiet]"
    by (simp add: world_one_def empty_world_def State_init_def State_watch_def)
  from unwatch_removes_first_equal_or_raises [where r = 0 and cb = "Callback 10 quiet"
      and w = world_one] h
  have a: "unwatch (snd (State_watch 0 (Callback 10 quiet) world_one))
     (fst (State_watch 0 (Callback 10 quiet) world_one)) = (world_one, None)"
    by blast
  from unwatch_removes_first_equal_or_raises [where r = 0 and cb = "Callback 10 quiet"
      and w = "fst (State_watch 0 (Callback 10 quiet) world_one)"] h2
  have "c_watchers (cells (fst (unwatch (Unwatch 0 (Callback 10 quiet))
       (fst (State_watch 0 (Callback 10 quiet) world_one)))) 0) =
       remove1 (Callback 10 quiet) (c_watchers (cells (fst (State_watch 0 (Callback 10 quiet) world_one)) 0))"
    by blast
  moreover have "remove1 (Callback 10 quiet)
      (c_watchers (cells (fst (State_watch 0 (Callback 10 quiet) world_one)) 0)) = []"
    by (simp add: l)
  ultimately have b: "c_watchers (cells (fst (unwatch (Unwatch 0 (Callback 10 quiet))
       (fst (State_watch 0 (Callback 10 quiet) world_one)))) 0) = []"
    by (rule trans)
  from h a h2 b show ?thesis by blast
qed

text \<open>
  C10. A watcher of the application raises during an accepted change, the watchers
  before it having returned: the call of \<open>set\<close> returns that exception, the new value
  is in the cell, and the trace has grown by the calls of the watchers up to the
  raising one and nothing else: the watchers after it were not called and no message
  was posted.
\<close>

theorem watcher_exception_after_commit:
  "\<not> callable v \<and> \<not> values_equal (State_get r w) v \<and>
   c_watchers (cells w r) = pre @ cb # post \<and>
   list_all (returns_normally (State_get r w) v) pre \<and>
   is_app cb \<and> outcome cb (State_get r w) v = Some e \<longrightarrow>
   State_set app n r v w =
     (add_trace (map (\<lambda>c. call_event c (State_get r w) v) (pre @ [cb])) (store_value r v w),
      Some e) \<and>
   State_get r (fst (State_set app n r v w)) = v"
proof (intro impI, elim conjE)
  assume nc: "\<not> callable v" and ne: "\<not> values_equal (State_get r w) v"
    and ws: "c_watchers (cells w r) = pre @ cb # post"
    and pre: "list_all (returns_normally (State_get r w) v) pre"
    and app: "is_app cb" and out: "outcome cb (State_get r w) v = Some e"
  let ?old = "State_get r w"
  have "notify_watchers app n (pre @ cb # post) ?old v (store_value r v w) =
        notify_watchers app n (cb # post) ?old v
          (add_trace (map (\<lambda>c. call_event c ?old v) pre) (store_value r v w))"
    by (rule notify_watchers_prefix [OF pre])
  also have "\<dots> = (add_trace [call_event cb ?old v]
          (add_trace (map (\<lambda>c. call_event c ?old v) pre) (store_value r v w)), Some e)"
    by (rule notify_watchers_raises [OF app out])
  finally have nw: "notify_watchers app n (pre @ cb # post) ?old v (store_value r v w) =
      (add_trace (map (\<lambda>c. call_event c ?old v) (pre @ [cb])) (store_value r v w), Some e)"
    by (simp add: add_trace_add_trace)
  have res: "State_set app n r v w =
     (add_trace (map (\<lambda>c. call_event c ?old v) (pre @ [cb])) (store_value r v w), Some e)"
    using nc ne ws nw by (simp add: State_get_def State_set_literal State_set_value_changed)
  moreover have "State_get r (fst (State_set app n r v w)) = v"
    by (simp add: res State_get_def add_trace_def store_value_def)
  ultimately show "State_set app n r v w =
     (add_trace (map (\<lambda>c. call_event c ?old v) (pre @ [cb])) (store_value r v w), Some e) \<and>
     State_get r (fst (State_set app n r v w)) = v"
    by blast
qed

theorem watcher_exception_after_commit_witness:
  "\<not> callable (VInt 5) \<and> \<not> values_equal (State_get 0 world_failing) (VInt 5) \<and>
   c_watchers (cells world_failing 0) = [Callback 10 quiet] @ Callback 20 failing # [Callback 30 quiet] \<and>
   list_all (returns_normally (State_get 0 world_failing) (VInt 5)) [Callback 10 quiet] \<and>
   is_app (Callback 20 failing) \<and>
   outcome (Callback 20 failing) (State_get 0 world_failing) (VInt 5) = Some (Raised 7) \<and>
   snd (State_set no_callables 0 0 (VInt 5) world_failing) = Some (Raised 7) \<and>
   State_get 0 (fst (State_set no_callables 0 0 (VInt 5) world_failing)) = VInt 5 \<and>
   trace (fst (State_set no_callables 0 0 (VInt 5) world_failing)) =
     [CallbackCalled 10 (VInt 0) (VInt 5), CallbackCalled 20 (VInt 0) (VInt 5)]"
proof -
  have v: "State_get 0 world_failing = VInt 0"
    by (simp add: world_failing_def empty_world_def State_init_def State_subscribe_def
        State_watch_def State_get_def)
  have t: "trace world_failing = []"
    by (simp add: world_failing_def empty_world_def State_init_def State_subscribe_def
        State_watch_def)
  have h1: "\<not> callable (VInt 5)" by simp
  have h2: "\<not> values_equal (State_get 0 world_failing) (VInt 5)"
    by (simp add: v values_equal_def)
  have h3: "c_watchers (cells world_failing 0) =
      [Callback 10 quiet] @ Callback 20 failing # [Callback 30 quiet]"
    by (simp add: world_failing_def empty_world_def State_init_def State_subscribe_def
        State_watch_def)
  have h4: "list_all (returns_normally (State_get 0 world_failing) (VInt 5)) [Callback 10 quiet]"
    by (simp add: returns_normally_def quiet_def)
  have h5: "is_app (Callback 20 failing)" by simp
  have h6: "outcome (Callback 20 failing) (State_get 0 world_failing) (VInt 5) = Some (Raised 7)"
    by (simp add: failing_def)
  from watcher_exception_after_commit [where v = "VInt 5" and r = 0 and w = world_failing
      and pre = "[Callback 10 quiet]" and cb = "Callback 20 failing"
      and post = "[Callback 30 quiet]" and e = "Raised 7" and app = no_callables and n = 0]
    h1 h2 h3 h4 h5 h6
  have r: "State_set no_callables 0 0 (VInt 5) world_failing =
     (add_trace (map (\<lambda>c. call_event c (State_get 0 world_failing) (VInt 5))
        ([Callback 10 quiet] @ [Callback 20 failing])) (store_value 0 (VInt 5) world_failing),
      Some (Raised 7))"
    by blast
  have c1: "snd (State_set no_callables 0 0 (VInt 5) world_failing) = Some (Raised 7)"
    by (simp add: r)
  have c2: "State_get 0 (fst (State_set no_callables 0 0 (VInt 5) world_failing)) = VInt 5"
    by (simp add: r State_get_def add_trace_def store_value_def)
  have c3: "trace (fst (State_set no_callables 0 0 (VInt 5) world_failing)) =
     [CallbackCalled 10 (VInt 0) (VInt 5), CallbackCalled 20 (VInt 0) (VInt 5)]"
    by (simp add: r v t add_trace_def store_value_def)
  from h1 h2 h3 h4 h5 h6 c1 c2 c3 show ?thesis by blast
qed

section \<open>Effects: what is connected\<close>

lemma dir_derived: "dir_type derived_type = [''on_n'', ''post_message'']"
  by code_simp

text \<open>
  C4. The claim does not hold of the code: \<open>connect_effects\<close> walks
  \<open>dir(type(widget))\<close> and reads each name with \<open>getattr(type(widget), ...)\<close>, and both
  see the names of the base classes. For a widget of class \<open>Derived\<close>, whose own
  namespace is empty and whose base defines \<open>on_n\<close> with \<open>@effect("n")\<close>, creating the
  state \<open>n\<close> binds the inherited method as a watcher, and the next accepted change
  calls it.
\<close>

theorem inherited_effect_is_connected:
  "map_of (hd (t_mro (w_type derived_widget))) ''on_n'' = None \<and>
   getattr_type (tl (t_mro (w_type derived_widget))) ''on_n'' = Function (Some [TName ''n'']) quiet \<and>
   c_watchers (cells (fst (use_state derived_widget (VInt 0) (Some ''n'') empty_world)) 0) =
     [EffectLambda 9 ''on_n'' quiet] \<and>
   trace (fst (State_set no_callables 0 0 (VInt 5)
       (fst (use_state derived_widget (VInt 0) (Some ''n'') empty_world)))) =
     [MethodCalled 9 ''on_n'' (VInt 0) (VInt 5), Posted 9 0 (VInt 0) (VInt 5)]"
  by (simp add: derived_widget_def derived_type_def base_namespace_def use_state_def
      State_init_def State_subscribe_def empty_world_def connect_effects_def dir_derived [unfolded derived_type_def base_namespace_def]
      State_watch_def State_set.simps State_set_value.simps values_equal_def store_value_def
      quiet_def log_event_def Let_def)

section \<open>Contexts: providers and handles\<close>

lemma ContextProvider_init_raises:
  "ContextProvider_init reactive_context v wid ty parent w = (w, Inl (NameError ''context''))"
  by (simp add: ContextProvider_init_def ContextProvider_init_names_def)

lemma ContextHandle_init_raises:
  "ContextHandle_init state widget ctx is_default = Inl (AttributeError ''_rx_context'')"
  by (simp add: ContextHandle_init_def ContextHandle_slots_def ContextHandle_init_assigns_def)

lemma find_provider_is_first_match:
  "find_provider widget ctx = find (\<lambda>a. is_provider_of (w_kind a) ctx) (ancestors widget)"
  by (induction widget ctx rule: find_provider.induct) (simp split: option.splits)

lemma find_Some_split:
  "find P xs = Some x \<Longrightarrow> \<exists>ys zs. xs = ys @ x # zs \<and> P x \<and> (\<forall>y \<in> set ys. \<not> P y)"
proof (induction xs)
  case Nil
  then show ?case by simp
next
  case (Cons a xs)
  show ?case
  proof (cases "P a")
    case True
    with Cons.prems have "a = x" by simp
    with True have "a # xs = [] @ x # xs \<and> P x \<and> (\<forall>y \<in> set []. \<not> P y)" by simp
    then show ?thesis by blast
  next
    case False
    with Cons.prems have "find P xs = Some x" by simp
    from Cons.IH [OF this] obtain ys zs
      where "xs = ys @ x # zs" "P x" "\<forall>y \<in> set ys. \<not> P y" by blast
    with False have "a # xs = (a # ys) @ x # zs \<and> P x \<and> (\<forall>y \<in> set (a # ys). \<not> P y)"
      by simp
    then show ?thesis by blast
  qed
qed

text \<open>
  What \<open>_find_provider\<close> does on a chain that has providers: it returns the first
  widget of the chain, the consumer itself included, that is a \<open>ContextProvider\<close> of
  the same context object; no widget nearer to the consumer is one.
\<close>

lemma find_provider_nearest:
  "find_provider widget ctx = Some p \<Longrightarrow>
   \<exists>nearer farther. ancestors widget = nearer @ p # farther \<and>
     is_provider_of (w_kind p) ctx \<and> (\<forall>a \<in> set nearer. \<not> is_provider_of (w_kind a) ctx)"
  unfolding find_provider_is_first_match by (rule find_Some_split)

lemma use_context_required_not_found:
  "find_provider widget ctx = None \<Longrightarrow>
   use_context widget ctx subscribe True w = (w, Inl (ContextNotFoundError_init ctx widget))"
  by (simp add: use_context_def)

lemma use_context_plain_raises:
  "\<not> ctx_is_model ctx \<Longrightarrow> find_provider widget ctx = None \<Longrightarrow>
   snd (use_context widget ctx subscribe False w) = Inl (AttributeError ''_rx_context'')"
  by (simp add: use_context_def ContextHandle_init_raises State_init_def Let_def)

lemma use_context_model_default:
  "ctx_is_model ctx \<Longrightarrow> find_provider widget ctx = None \<Longrightarrow>
   snd (use_context widget ctx subscribe False w) =
     Inr \<lparr>ch_state = next_ref w, ch_widget = w_id widget, ch_context = ctx_id ctx,
          ch_is_default = True\<rparr> \<and>
   State_get (next_ref w) (fst (use_context widget ctx subscribe False w)) = ctx_default_value ctx"
  by (simp add: use_context_def ModelContextHandle_init_def State_init_def Let_def
      State_get_def State_subscribe_def)

text \<open>
  C1. The claim does not hold of the code. \<open>ContextProvider.__init__\<close> reads the name
  \<open>context\<close>, which is neither a parameter nor a name of the module: every construction
  of a provider raises \<open>NameError\<close>, so no provider can be mounted. And below two
  providers of a plain context, were they there, \<open>_find_provider\<close> finds the inner one
  but \<open>use_context\<close> raises \<open>AttributeError\<close> when it builds the handle, instead of
  resolving to the provider's cell.
\<close>

theorem context_provider_cannot_be_built:
  "ContextProvider_init reactive_context v wid ty parent w = (w, Inl (NameError ''context'')) \<and>
   find_provider nested_consumer counter_context =
     Some (Widget 8 provider_type (ContextProviderW counter_context 4)
          (Some (Widget 7 provider_type (ContextProviderW counter_context 3) None))) \<and>
   snd (use_context nested_consumer counter_context True False empty_world) =
     Inl (AttributeError ''_rx_context'')"
  by (simp add: ContextProvider_init_raises nested_consumer_def counter_context_def
      use_context_def ContextHandle_init_raises)

text \<open>
  C7. The claim does not hold of the code for a plain context: with no provider above the
  widget and \<open>required=False\<close>, \<open>use_context\<close> raises \<open>AttributeError\<close> out of
  \<open>ContextHandle.__init__\<close> (which assigns \<open>_rx_context\<close>, not a slot) instead of returning
  a handle. With \<open>required=True\<close> it raises \<open>ContextNotFoundError\<close> with the name of the
  context and the class of the widget, as the claim says.
\<close>

theorem use_context_default_raises:
  "find_provider lone_widget counter_context = None \<and>
   snd (use_context lone_widget counter_context True False empty_world) =
     Inl (AttributeError ''_rx_context'') \<and>
   use_context lone_widget counter_context True True empty_world =
     (empty_world, Inl (ContextNotFoundError 0 9
        (''Context '' @ [CHR 0x27] @ ''counter'' @ [CHR 0x27] @
         '' not found in widget tree for MyWidget. Make sure a ContextProvider is mounted above this widget.'')))"
  by (simp add: lone_widget_def counter_context_def plain_type_def use_context_def
      ContextHandle_init_raises State_init_def Let_def ContextNotFoundError_init_def)

section \<open>Stores: independence of mounts\<close>

lemma append_watchers_Nil: "append_watchers r [] w = w"
  by (simp add: append_watchers_def)

lemma append_watchers_append:
  "append_watchers r ys (append_watchers r xs w) = append_watchers r (xs @ ys) w"
  by (simp add: append_watchers_def)

lemma State_watch_append: "fst (State_watch r cb w) = append_watchers r [cb] w"
  by (simp add: State_watch_def append_watchers_def)

lemma connect_store_effects_loop_appends:
  "\<exists>extra. list_all is_app extra \<and>
     connect_store_effects_loop widget st state names w = append_watchers state extra w"
proof (induction names arbitrary: w)
  case Nil
  have "list_all is_app [] \<and> connect_store_effects_loop widget st state [] w = append_watchers state [] w"
    by (simp add: append_watchers_Nil)
  then show ?case by blast
next
  case (Cons attr_name names)
  have skip: "\<exists>extra. list_all is_app extra \<and>
     connect_store_effects_loop widget st state names w = append_watchers state extra w"
    by (rule Cons.IH)
  have bind: "\<exists>extra. list_all is_app extra \<and>
     connect_store_effects_loop widget st state names
       (fst (State_watch state (EffectLambda (w_id widget) attr_name m) w)) =
     append_watchers state extra w" for m
  proof -
    from Cons.IH [of "append_watchers state [EffectLambda (w_id widget) attr_name m] w"]
    obtain extra where e: "list_all is_app extra"
      "connect_store_effects_loop widget st state names
         (append_watchers state [EffectLambda (w_id widget) attr_name m] w) =
       append_watchers state extra (append_watchers state [EffectLambda (w_id widget) attr_name m] w)"
      by blast
    then have "list_all is_app (EffectLambda (w_id widget) attr_name m # extra) \<and>
      connect_store_effects_loop widget st state names
       (fst (State_watch state (EffectLambda (w_id widget) attr_name m) w)) =
      append_watchers state (EffectLambda (w_id widget) attr_name m # extra) w"
      by (simp add: State_watch_append append_watchers_append)
    then show ?thesis by blast
  qed
  show ?case
    using skip bind
    by (simp split: class_attr.splits option.splits)
qed

lemma notify_watchers_shape:
  "list_all is_app cbs \<Longrightarrow> \<exists>evs. fst (notify_watchers app n cbs old new w) = add_trace evs w"
proof (induction cbs arbitrary: w)
  case Nil
  have "fst (notify_watchers app n [] old new w) = add_trace [] w"
    by (simp add: add_trace_Nil)
  then show ?case by blast
next
  case (Cons c cbs)
  from Cons.prems have rest: "list_all is_app cbs" and c: "is_app c" by simp_all
  from Cons.IH [OF rest, of "add_trace [call_event c old new] w"]
  obtain evs where evs: "fst (notify_watchers app n cbs old new (add_trace [call_event c old new] w)) =
      add_trace evs (add_trace [call_event c old new] w)" by blast
  show ?case
  proof (cases "outcome c old new")
    case None
    with c evs have "fst (notify_watchers app n (c # cbs) old new w) =
        add_trace (call_event c old new # evs) w"
      by (cases c) (simp_all add: log_event_add_trace add_trace_add_trace)
    then show ?thesis by blast
  next
    case (Some e)
    with c have "fst (notify_watchers app n (c # cbs) old new w) =
        add_trace [call_event c old new] w"
      by (simp add: notify_watchers_raises)
    then show ?thesis by blast
  qed
qed

lemma store_value_same: "store_value r (c_value (cells w r)) w = w"
  by (simp add: store_value_def)

lemma State_set_value_shape:
  assumes "list_all is_app (c_watchers (cells w r))"
  shows "\<exists>v' evs. fst (State_set_value app n r v w) = add_trace evs (store_value r v' w)"
proof (cases "values_equal (c_value (cells w r)) v")
  case True
  then have "fst (State_set_value app n r v w) = add_trace [] (store_value r (c_value (cells w r)) w)"
    by (simp add: State_set_value_equal store_value_same add_trace_Nil)
  then show ?thesis by blast
next
  case False
  from notify_watchers_shape [OF assms, of app n "c_value (cells w r)" v "store_value r v w"]
  obtain evs where evs: "fst (notify_watchers app n (c_watchers (cells w r)) (c_value (cells w r)) v
      (store_value r v w)) = add_trace evs (store_value r v w)" by blast
  obtain w' x where nw: "notify_watchers app n (c_watchers (cells w r)) (c_value (cells w r)) v
      (store_value r v w) = (w', x)"
    by (cases "notify_watchers app n (c_watchers (cells w r)) (c_value (cells w r)) v
      (store_value r v w)")
  with evs have w': "w' = add_trace evs (store_value r v w)" by simp
  have "\<exists>evs'. fst (State_set_value app n r v w) = add_trace evs' (store_value r v w)"
  proof (cases x)
    case None
    with False nw w' have "fst (State_set_value app n r v w) =
        add_trace (evs @ map (\<lambda>wid. Posted wid r (c_value (cells w r)) v)
          (c_subscribers (cells w' r))) (store_value r v w)"
      by (simp add: State_set_value_changed post_messages_trace add_trace_add_trace)
    then show ?thesis by blast
  next
    case (Some e)
    with False nw w' have "fst (State_set_value app n r v w) = add_trace evs (store_value r v w)"
      by (simp add: State_set_value_changed)
    then show ?thesis by blast
  qed
  then show ?thesis by blast
qed

lemma State_set_shape:
  assumes "list_all is_app (c_watchers (cells w r))"
  shows "\<exists>v' evs. fst (State_set app n r v w) = add_trace evs (store_value r v' w)"
proof (cases "callable v")
  case False
  with State_set_value_shape [OF assms] show ?thesis by (simp add: State_set_literal)
next
  case True
  show ?thesis
  proof (cases "call_value app v (c_value (cells w r))")
    case (Inl e)
    with True have "fst (State_set app n r v w) = add_trace [] (store_value r (c_value (cells w r)) w)"
      by (simp add: State_set.simps store_value_same add_trace_Nil)
    then show ?thesis by blast
  next
    case (Inr nv)
    with True State_set_value_shape [OF assms, of app n nv] show ?thesis
      by (simp add: State_set.simps)
  qed
qed

lemma dispatch_provider_shape:
  assumes "list_all is_app (c_watchers (cells w r))"
  shows "\<exists>v' evs. fst (dispatch app n (ProviderDispatch st r) a w) = add_trace evs (store_value r v' w)"
proof (cases "s_reducer st (State_get r w) a")
  case (Inl e)
  then have "fst (dispatch app n (ProviderDispatch st r) a w) =
      add_trace [] (store_value r (c_value (cells w r)) w)"
    by (simp add: store_value_same add_trace_Nil)
  then show ?thesis by blast
next
  case (Inr nv)
  with State_set_shape [OF assms, of app n nv] show ?thesis by simp
qed

lemma dispatch_all_provider_shape:
  "list_all is_app (c_watchers (cells w r)) \<Longrightarrow>
   \<exists>v' evs. dispatch_all app n (ProviderDispatch st r) actions w = add_trace evs (store_value r v' w)"
proof (induction actions arbitrary: w)
  case Nil
  have "dispatch_all app n (ProviderDispatch st r) [] w =
      add_trace [] (store_value r (c_value (cells w r)) w)"
    by (simp add: store_value_same add_trace_Nil)
  then show ?case by blast
next
  case (Cons a actions)
  from dispatch_provider_shape [OF Cons.prems, of app n st a]
  obtain v1 evs1 where s1: "fst (dispatch app n (ProviderDispatch st r) a w) =
      add_trace evs1 (store_value r v1 w)" by blast
  have "list_all is_app (c_watchers (cells (add_trace evs1 (store_value r v1 w)) r))"
    using Cons.prems by (simp add: add_trace_def store_value_def)
  from Cons.IH [OF this]
  obtain v2 evs2 where s2: "dispatch_all app n (ProviderDispatch st r) actions
      (add_trace evs1 (store_value r v1 w)) =
      add_trace evs2 (store_value r v2 (add_trace evs1 (store_value r v1 w)))" by blast
  have "dispatch_all app n (ProviderDispatch st r) (a # actions) w =
      dispatch_all app n (ProviderDispatch st r) actions
        (fst (dispatch app n (ProviderDispatch st r) a w))"
    by (simp only: dispatch_all.simps)
  also have "\<dots> = dispatch_all app n (ProviderDispatch st r) actions
      (add_trace evs1 (store_value r v1 w))"
    by (simp only: s1)
  also have "\<dots> = add_trace evs2 (store_value r v2 (add_trace evs1 (store_value r v1 w)))"
    by (rule s2)
  also have "\<dots> = add_trace (evs1 @ evs2) (store_value r v2 w)"
    by (simp add: add_trace_def store_value_def)
  finally show ?case by blast
qed

lemma dispatch_all_provider_frame:
  assumes "list_all is_app (c_watchers (cells w r))" and "r' \<noteq> r"
  shows "cells (dispatch_all app n (ProviderDispatch st r) actions w) r' = cells w r'"
proof -
  from dispatch_all_provider_shape [OF assms(1), of app n st actions]
  obtain v' evs where "dispatch_all app n (ProviderDispatch st r) actions w =
      add_trace evs (store_value r v' w)" by blast
  with assms(2) show ?thesis by (simp add: add_trace_def store_value_def)
qed

text \<open>
  C8. Two \<open>StoreProvider\<close>s made for the same store hold two cells, one after the
  other in the heap, each with its own \<open>dispatch\<close> closure bound to its own cell. A
  handle that \<open>Store.use\<close> resolves to one of the two providers carries that provider's
  cell and closure, and whatever list of actions is dispatched through it, the cell of
  the other provider keeps the store's initial value.
\<close>

theorem store_mounts_are_independent:
  assumes "StoreProvider_init st ia tya para w = (wa, pa)"
    and "StoreProvider_init st ib tyb parb wa = (wb, pb)"
    and "(p = pa \<and> q = pb) \<or> (p = pb \<and> q = pa)"
    and "Store_find_provider st consumer = Some p"
    and "Store_use st consumer subscribe wb = (wc, Inr h)"
  shows "get_state pa = Inr (next_ref w) \<and> get_state pb = Inr (Suc (next_ref w)) \<and>
    get_dispatch pa = Inr (ProviderDispatch st (next_ref w)) \<and>
    get_dispatch pb = Inr (ProviderDispatch st (Suc (next_ref w))) \<and>
    get_state p = Inr (sh_state h) \<and> get_dispatch p = Inr (sh_dispatch h) \<and>
    (\<exists>r. get_state q = Inr r \<and> r \<noteq> sh_state h \<and>
       State_get r wc = s_initial st \<and>
       State_get r (dispatch_all app n (sh_dispatch h) actions wc) = s_initial st)"
proof -
  let ?ra = "next_ref w" and ?rb = "Suc (next_ref w)"
  from assms(1) have pa: "pa = Widget ia tya (StoreProviderW st ?ra) para"
    and wa: "wa = fst (State_init (s_initial st) (s_name st) w)"
    by (auto simp: StoreProvider_init_def ModelState_init_def State_init_def split: if_splits)
  from assms(2) wa have pb: "pb = Widget ib tyb (StoreProviderW st ?rb) parb"
    and wb: "wb = fst (State_init (s_initial st) (s_name st) wa)"
    by (auto simp: StoreProvider_init_def ModelState_init_def State_init_def split: if_splits)
  have ca: "cells wb ?ra = \<lparr>c_value = s_initial st, c_subscribers = [], c_watchers = [],
      c_name = s_name st\<rparr>"
    and cb: "cells wb ?rb = \<lparr>c_value = s_initial st, c_subscribers = [], c_watchers = [],
      c_name = s_name st\<rparr>"
    by (simp_all add: wa wb State_init_def)
  from assms(3) pa pb obtain rp rq where rp: "get_state p = Inr rp"
    and dp: "get_dispatch p = Inr (ProviderDispatch st rp)"
    and rq: "get_state q = Inr rq" and ne: "rq \<noteq> rp"
    and cp: "cells wb rp = \<lparr>c_value = s_initial st, c_subscribers = [], c_watchers = [],
      c_name = s_name st\<rparr>"
    and cq: "cells wb rq = \<lparr>c_value = s_initial st, c_subscribers = [], c_watchers = [],
      c_name = s_name st\<rparr>"
    using ca cb by auto
  define ws where "ws = (if subscribe then State_subscribe rp (w_id consumer) wb else wb)"
  from connect_store_effects_loop_appends [of consumer st rp "dir_type (w_type consumer)" ws]
  obtain extra where ex: "list_all is_app extra"
    and conn: "connect_store_effects consumer st rp ws = append_watchers rp extra ws"
    by (auto simp: connect_store_effects_def)
  from assms(5) assms(4) rp dp conn
  have wc: "wc = append_watchers rp extra ws"
    and h: "h = \<lparr>sh_state = rp, sh_dispatch = ProviderDispatch st rp, sh_store = s_id st\<rparr>"
    by (simp_all add: Store_use_def ws_def Let_def)
  have app3: "list_all is_app (c_watchers (cells wc rp))"
    using ex cp by (simp add: wc ws_def append_watchers_def State_subscribe_def)
  have q3: "State_get rq wc = s_initial st"
    using cq ne by (simp add: wc ws_def append_watchers_def State_subscribe_def State_get_def)
  have "cells (dispatch_all app n (ProviderDispatch st rp) actions wc) rq = cells wc rq"
    using app3 ne by (rule dispatch_all_provider_frame)
  then have fin: "State_get rq (dispatch_all app n (sh_dispatch h) actions wc) = s_initial st"
    using q3 by (simp add: h State_get_def)
  have "\<exists>r. get_state q = Inr r \<and> r \<noteq> sh_state h \<and>
       State_get r wc = s_initial st \<and>
       State_get r (dispatch_all app n (sh_dispatch h) actions wc) = s_initial st"
    using rq ne q3 fin by (auto simp: h)
  moreover have "get_state p = Inr (sh_state h) \<and> get_dispatch p = Inr (sh_dispatch h)"
    using rp dp by (simp add: h)
  moreover have "get_state pa = Inr ?ra \<and> get_state pb = Inr ?rb \<and>
    get_dispatch pa = Inr (ProviderDispatch st ?ra) \<and>
    get_dispatch pb = Inr (ProviderDispatch st ?rb)"
    by (simp add: pa pb)
  ultimately show ?thesis by blast
qed

lemma mount_a_eval:
  "snd mount_a = Widget 3 provider_type (StoreProviderW counter_store 0) (Some root_widget)"
  by (simp add: mount_a_def StoreProvider_init_def State_init_def ModelState_init_def
      counter_store_def empty_world_def)

lemma mount_b_eval:
  "snd mount_b = Widget 4 provider_type (StoreProviderW counter_store (Suc 0)) (Some root_widget)"
  by (simp add: mount_b_def mount_a_def StoreProvider_init_def State_init_def ModelState_init_def
      counter_store_def empty_world_def)

lemma used_a_eval: "snd used_a = Inr handle_a"
  by (simp add: used_a_def Store_use_def consumer_a_def mount_a_eval handle_a_def Let_def
      counter_store_def)

lemma used_a_cells:
  "cells (fst used_a) 0 = \<lparr>c_value = VInt 0, c_subscribers = [5], c_watchers = [],
     c_name = Some ''counter''\<rparr>"
  by (simp add: used_a_def Store_use_def consumer_a_def mount_a_eval Let_def
      connect_store_effects_def dir_type_def plain_type_def State_subscribe_def
      mount_b_def mount_a_def StoreProvider_init_def State_init_def ModelState_init_def
      counter_store_def empty_world_def)

theorem store_mounts_are_independent_witness:
  "StoreProvider_init counter_store 3 provider_type (Some root_widget) empty_world = mount_a \<and>
   StoreProvider_init counter_store 4 provider_type (Some root_widget) (fst mount_a) = mount_b \<and>
   Store_find_provider counter_store consumer_a = Some (snd mount_a) \<and>
   Store_use counter_store consumer_a True (fst mount_b) = (fst used_a, Inr handle_a) \<and>
   get_state (snd mount_b) = Inr (Suc 0) \<and>
   State_get 0 (dispatch_all no_callables 0 (sh_dispatch handle_a)
       [VStr ''inc'', VStr ''inc''] (fst used_a)) = VInt 2 \<and>
   State_get (Suc 0) (dispatch_all no_callables 0 (sh_dispatch handle_a)
       [VStr ''inc'', VStr ''inc''] (fst used_a)) = VInt 0"
proof -
  have h1: "StoreProvider_init counter_store 3 provider_type (Some root_widget) empty_world =
      (fst mount_a, snd mount_a)"
    by (simp add: mount_a_def)
  have h2: "StoreProvider_init counter_store 4 provider_type (Some root_widget) (fst mount_a) =
      (fst mount_b, snd mount_b)"
    by (simp add: mount_b_def)
  have h3: "(snd mount_a = snd mount_a \<and> snd mount_b = snd mount_b) \<or>
      (snd mount_a = snd mount_b \<and> snd mount_b = snd mount_a)"
    by simp
  have h4: "Store_find_provider counter_store consumer_a = Some (snd mount_a)"
    by (simp add: consumer_a_def mount_a_eval)
  have h5: "Store_use counter_store consumer_a True (fst mount_b) = (fst used_a, Inr handle_a)"
    using used_a_eval by (simp add: used_a_def prod_eq_iff)
  have g: "get_state (snd mount_b) = Inr (Suc 0)" by (simp add: mount_b_eval)
  from store_mounts_are_independent [OF h1 h2 h3 h4 h5, of no_callables 0
      "[VStr ''inc'', VStr ''inc'']"] g
  have other: "State_get (Suc 0) (dispatch_all no_callables 0 (sh_dispatch handle_a)
       [VStr ''inc'', VStr ''inc''] (fst used_a)) = s_initial counter_store"
    by auto
  have own: "State_get 0 (dispatch_all no_callables 0 (sh_dispatch handle_a)
       [VStr ''inc'', VStr ''inc''] (fst used_a)) = VInt 2"
    by (simp add: handle_a_def State_get_def used_a_cells counter_store_def count_reducer_def
        State_set_literal State_set_value_changed values_equal_def store_value_def
        post_messages_trace add_trace_def)
  from h1 h2 h4 h5 g other own show ?thesis
    by (simp add: counter_store_def)
qed

section \<open>Derivations\<close>

lemma connect_effects_loop_appends:
  "\<exists>extra. list_all is_app extra \<and>
     connect_effects_loop widget state_name state names w = append_watchers state extra w"
proof (induction names arbitrary: w)
  case Nil
  have "list_all is_app [] \<and>
      connect_effects_loop widget state_name state [] w = append_watchers state [] w"
    by (simp add: append_watchers_Nil)
  then show ?case by blast
next
  case (Cons attr_name names)
  have skip: "\<exists>extra. list_all is_app extra \<and>
     connect_effects_loop widget state_name state names w = append_watchers state extra w"
    by (rule Cons.IH)
  have bind: "\<exists>extra. list_all is_app extra \<and>
     connect_effects_loop widget state_name state names
       (fst (State_watch state (EffectLambda (w_id widget) attr_name m) w)) =
     append_watchers state extra w" for m
  proof -
    from Cons.IH [of "append_watchers state [EffectLambda (w_id widget) attr_name m] w"]
    obtain extra where e: "list_all is_app extra"
      "connect_effects_loop widget state_name state names
         (append_watchers state [EffectLambda (w_id widget) attr_name m] w) =
       append_watchers state extra (append_watchers state [EffectLambda (w_id widget) attr_name m] w)"
      by blast
    then have "list_all is_app (EffectLambda (w_id widget) attr_name m # extra) \<and>
      connect_effects_loop widget state_name state names
       (fst (State_watch state (EffectLambda (w_id widget) attr_name m) w)) =
      append_watchers state (EffectLambda (w_id widget) attr_name m # extra) w"
      by (simp add: State_watch_append append_watchers_append)
    then show ?thesis by blast
  qed
  show ?case
    using skip bind
    by (simp split: class_attr.splits option.splits)
qed

lemma use_derived_two_shape:
  assumes "use_derived widget [a, b] f name w = (wd, Inr h)"
  shows "\<exists>initial extra. f [State_get a w, State_get b w] = Inr initial \<and>
     list_all is_app extra \<and> h_state h = next_ref w \<and>
     wd = append_watchers (next_ref w) extra
            (append_watchers b [OnSourceChange [a, b] f (next_ref w)]
              (append_watchers a [OnSourceChange [a, b] f (next_ref w)]
                (State_subscribe (next_ref w) (w_id widget)
                  (fst (State_init initial name w)))))"
proof -
  from assms obtain initial where i: "f [State_get a w, State_get b w] = Inr initial"
    by (cases "f [State_get a w, State_get b w]")
      (simp_all add: use_derived_def apply_selector_def get_values_def State_get_def)
  let ?w3 = "append_watchers b [OnSourceChange [a, b] f (next_ref w)]
              (append_watchers a [OnSourceChange [a, b] f (next_ref w)]
                (State_subscribe (next_ref w) (w_id widget)
                  (fst (State_init initial name w))))"
  have st: "State_init initial name w = (fst (State_init initial name w), next_ref w)"
    by (simp add: State_init_def)
  have "\<exists>extra. list_all is_app extra \<and>
     (if name_given name then connect_effects widget (the name) (next_ref w) ?w3 else ?w3) =
       append_watchers (next_ref w) extra ?w3"
  proof (cases "name_given name")
    case True
    with connect_effects_loop_appends [of widget "the name" "next_ref w"
        "dir_type (w_type widget)" ?w3]
    show ?thesis by (simp add: connect_effects_def)
  next
    case False
    then have "list_all is_app [] \<and>
     (if name_given name then connect_effects widget (the name) (next_ref w) ?w3 else ?w3) =
       append_watchers (next_ref w) [] ?w3"
      by (simp add: append_watchers_Nil)
    then show ?thesis by blast
  qed
  then obtain extra where ex: "list_all is_app extra"
    and c: "(if name_given name then connect_effects widget (the name) (next_ref w) ?w3 else ?w3) =
       append_watchers (next_ref w) extra ?w3" by blast
  from assms i have "h_state h = next_ref w \<and>
      wd = (if name_given name then connect_effects widget (the name) (next_ref w) ?w3 else ?w3)"
    apply (simp add: use_derived_def apply_selector_def get_values_def State_get_def)
    apply (subst (asm) st)
    apply (simp add: Let_def State_watch_append)
    apply auto
    done
  with ex c i show ?thesis by auto
qed

lemma posted_not_in_calls:
  "list_all (returns_normally o1 n1) cbs \<Longrightarrow>
   Posted wid r x y \<notin> set (map (\<lambda>c. call_event c old new) cbs)"
proof (induction cbs)
  case Nil
  then show ?case by simp
next
  case (Cons c cbs)
  then show ?case by (cases c) (simp_all add: returns_normally_def)
qed

lemma notify_watchers_all_return:
  "list_all (returns_normally old new) cbs \<Longrightarrow>
   notify_watchers app n cbs old new w =
     (add_trace (map (\<lambda>c. call_event c old new) cbs) w, None)"
  using notify_watchers_prefix [of old new cbs app n "[]" w] by simp

lemma on_source_change_step:
  assumes sel: "apply_selector f srcs (get_values srcs W) = Inr v"
    and lit: "\<not> callable v"
    and ok: "list_all (returns_normally (c_value (cells W d)) v) (c_watchers (cells W d))"
  shows "notify_watchers app (Suc n) [OnSourceChange srcs f d] old new W =
     ((if values_equal (c_value (cells W d)) v then W
       else add_trace
              (map (\<lambda>c. call_event c (c_value (cells W d)) v) (c_watchers (cells W d)) @
               map (\<lambda>wid. Posted wid d (c_value (cells W d)) v) (c_subscribers (cells W d)))
              (store_value d v W)),
      None)"
proof (cases "values_equal (c_value (cells W d)) v")
  case True
  then have "State_set app n d v W = (W, None)"
    using lit by (simp add: State_set_literal State_set_value_equal)
  with sel True show ?thesis by simp
next
  case False
  let ?prev = "c_value (cells W d)"
  let ?calls = "map (\<lambda>c. call_event c ?prev v) (c_watchers (cells W d))"
  have "notify_watchers app n (c_watchers (cells W d)) ?prev v (store_value d v W) =
      (add_trace ?calls (store_value d v W), None)"
    using ok by (rule notify_watchers_all_return)
  moreover have "c_subscribers (cells (add_trace ?calls (store_value d v W)) d) =
      c_subscribers (cells W d)"
    by (simp add: add_trace_def store_value_def)
  ultimately have "State_set_value app n d v W =
      (add_trace (?calls @ map (\<lambda>wid. Posted wid d ?prev v) (c_subscribers (cells W d)))
         (store_value d v W), None)"
    using False
    by (simp add: State_set_value_changed post_messages_trace add_trace_add_trace)
  then have "State_set app n d v W =
      (add_trace (?calls @ map (\<lambda>wid. Posted wid d ?prev v) (c_subscribers (cells W d)))
         (store_value d v W), None)"
    using lit by (simp add: State_set_literal)
  with sel False show ?thesis by simp
qed

text \<open>
  What a change of a source does to a derivation whose selector returns a value that is
  not callable. A derivation \<open>d\<close> is made from two cells \<open>a\<close> and \<open>b\<close> with the
  selector \<open>f\<close> in the world \<open>w\<close>. Later, in any world \<open>W\<close> where the three cells are
  still wired as \<open>use_derived\<close> left them (their values may have changed), \<open>a.set(x)\<close>
  is an accepted change. The watchers that \<open>a\<close> had before the derivation are
  application code that returns, as do the effect methods bound to \<open>d\<close>, and \<open>f\<close>
  returns the value \<open>v\<close> on \<open>x\<close> and the value that \<open>b\<close> has in \<open>W\<close>. Then the call
  returns normally, \<open>a\<close> holds \<open>x\<close>, \<open>b\<close> is unchanged, and \<open>d\<close> went through the
  gate of \<open>_set_value\<close> with \<open>v\<close>; the notification of \<open>d\<close> is in the trace if and
  only if \<open>v\<close> differs from the previous value of \<open>d\<close>.
\<close>

lemma derived_follows_source:
  assumes distinct: "a \<noteq> b"
    and alloc: "a < next_ref w \<and> b < next_ref w"
    and created: "use_derived widget [a, b] f name w = (wd, Inr h)"
    and later: "wired_like wd W a \<and> wired_like wd W b \<and> wired_like wd W (h_state h)"
    and literal: "\<not> callable x"
    and accepted: "\<not> values_equal (State_get a W) x"
    and others: "list_all (returns_normally (State_get a W) x) (c_watchers (cells w a))"
    and sel: "f [x, State_get b W] = Inr v \<and> \<not> callable v"
    and effects: "list_all (returns_normally (State_get (h_state h) W) v)
                    (c_watchers (cells wd (h_state h)))"
  shows "snd (State_set app (Suc n) a x W) = None \<and>
    State_get a (fst (State_set app (Suc n) a x W)) = x \<and>
    State_get b (fst (State_set app (Suc n) a x W)) = State_get b W \<and>
    State_get (h_state h) (fst (State_set app (Suc n) a x W)) =
      (if values_equal (State_get (h_state h) W) v then State_get (h_state h) W else v) \<and>
    trace (fst (State_set app (Suc n) a x W)) =
      trace W @ map (\<lambda>c. call_event c (State_get a W) x) (c_watchers (cells w a)) @
      (if values_equal (State_get (h_state h) W) v then []
       else map (\<lambda>c. call_event c (State_get (h_state h) W) v)
              (c_watchers (cells wd (h_state h))) @
            [Posted (w_id widget) (h_state h) (State_get (h_state h) W) v]) @
      map (\<lambda>wid. Posted wid a (State_get a W) x) (c_subscribers (cells w a)) \<and>
    (Posted (w_id widget) (h_state h) (State_get (h_state h) W) v
       \<in> set (drop (length (trace W)) (trace (fst (State_set app (Suc n) a x W))))) =
      (\<not> values_equal (State_get (h_state h) W) v)"
proof -
  let ?d = "next_ref w"
  let ?osc = "OnSourceChange [a, b] f ?d"
  from use_derived_two_shape [OF created]
  obtain initial extra where hd: "h_state h = ?d"
    and wd: "wd = append_watchers ?d extra
            (append_watchers b [?osc]
              (append_watchers a [?osc]
                (State_subscribe ?d (w_id widget) (fst (State_init initial name w)))))"
    by blast
  from alloc have ad: "a \<noteq> ?d" and bd: "b \<noteq> ?d" by simp_all
  have Da: "c_watchers (cells wd a) = c_watchers (cells w a) @ [?osc] \<and>
      c_subscribers (cells wd a) = c_subscribers (cells w a)"
    using distinct ad bd
    by (simp add: wd append_watchers_def State_subscribe_def State_init_def)
  have Dd: "c_watchers (cells wd ?d) = extra \<and> c_subscribers (cells wd ?d) = [w_id widget]"
    using distinct ad bd
    by (simp add: wd append_watchers_def State_subscribe_def State_init_def)
  from later Da have Fa: "c_watchers (cells W a) = c_watchers (cells w a) @ [?osc]"
    and Sa: "c_subscribers (cells W a) = c_subscribers (cells w a)"
    by (simp_all add: wired_like_def)
  from later Dd have Fd: "c_watchers (cells W ?d) = extra"
    and Sd: "c_subscribers (cells W ?d) = [w_id widget]"
    by (simp_all add: wired_like_def hd)
  let ?old = "c_value (cells W a)"
  let ?prev = "c_value (cells W ?d)"
  let ?calls_a = "map (\<lambda>c. call_event c ?old x) (c_watchers (cells w a))"
  let ?posts_a = "map (\<lambda>wid. Posted wid a ?old x) (c_subscribers (cells w a))"
  let ?calls_d = "map (\<lambda>c. call_event c ?prev v) extra"
  let ?W0 = "add_trace ?calls_a (store_value a x W)"
  let ?Wc = "if values_equal ?prev v then ?W0
       else add_trace (?calls_d @ [Posted (w_id widget) ?d ?prev v]) (store_value ?d v ?W0)"
  have W0d: "cells ?W0 ?d = cells W ?d"
    using ad by (simp add: add_trace_def store_value_def)
  have vals: "get_values [a, b] ?W0 = [x, c_value (cells W b)]"
    using distinct by (simp add: get_values_def add_trace_def store_value_def)
  have sel0: "apply_selector f [a, b] (get_values [a, b] ?W0) = Inr v"
    using sel by (simp add: vals apply_selector_def State_get_def)
  have ok0: "list_all (returns_normally (c_value (cells ?W0 ?d)) v) (c_watchers (cells ?W0 ?d))"
    using effects Dd by (simp add: W0d hd State_get_def Fd)
  have stepD: "notify_watchers app (Suc n) [?osc] ?old x ?W0 = (?Wc, None)"
    using on_source_change_step [OF sel0 _ ok0, of app n ?old x] sel
    by (simp add: W0d Fd Sd)
  have stepA: "notify_watchers app (Suc n) (c_watchers (cells W a)) ?old x (store_value a x W) =
      notify_watchers app (Suc n) [?osc] ?old x ?W0"
    using notify_watchers_prefix [of ?old x "c_watchers (cells w a)" app "Suc n" "[?osc]"
        "store_value a x W"] others
    by (simp add: Fa State_get_def)
  have subs: "c_subscribers (cells ?Wc a) = c_subscribers (cells w a)"
    using ad by (simp add: add_trace_def store_value_def Sa)
  have neq: "\<not> values_equal (c_value (cells W a)) x"
    using accepted by (simp add: State_get_def)
  have "State_set_value app (Suc n) a x W = (add_trace ?posts_a ?Wc, None)"
    using neq stepA stepD subs
    by (simp add: State_set_value_changed post_messages_trace)
  then have res: "State_set app (Suc n) a x W = (add_trace ?posts_a ?Wc, None)"
    using literal by (simp add: State_set_literal)
  have r1: "snd (State_set app (Suc n) a x W) = None" by (simp add: res)
  have r2: "State_get a (fst (State_set app (Suc n) a x W)) = x"
    using ad by (simp add: res State_get_def add_trace_def store_value_def)
  have r3: "State_get b (fst (State_set app (Suc n) a x W)) = State_get b W"
    using distinct bd by (simp add: res State_get_def add_trace_def store_value_def)
  have r4: "State_get (h_state h) (fst (State_set app (Suc n) a x W)) =
      (if values_equal (State_get (h_state h) W) v then State_get (h_state h) W else v)"
    using ad by (simp add: res hd State_get_def add_trace_def store_value_def)
  have r5: "trace (fst (State_set app (Suc n) a x W)) =
      trace W @ map (\<lambda>c. call_event c (State_get a W) x) (c_watchers (cells w a)) @
      (if values_equal (State_get (h_state h) W) v then []
       else map (\<lambda>c. call_event c (State_get (h_state h) W) v)
              (c_watchers (cells wd (h_state h))) @
            [Posted (w_id widget) (h_state h) (State_get (h_state h) W) v]) @
      map (\<lambda>wid. Posted wid a (State_get a W) x) (c_subscribers (cells w a))"
    using Dd by (simp add: res hd State_get_def add_trace_def store_value_def)
  have na: "Posted (w_id widget) ?d ?prev v \<notin> set ?calls_a"
    using others by (rule posted_not_in_calls)
  have nd: "Posted (w_id widget) ?d ?prev v \<notin> set ?calls_d"
    using posted_not_in_calls [OF effects, of "w_id widget" ?d ?prev v ?prev v] Dd
    by (simp add: hd)
  have np: "Posted (w_id widget) ?d ?prev v \<notin> set ?posts_a"
    using ad by auto
  have r6: "(Posted (w_id widget) (h_state h) (State_get (h_state h) W) v
       \<in> set (drop (length (trace W)) (trace (fst (State_set app (Suc n) a x W))))) =
      (\<not> values_equal (State_get (h_state h) W) v)"
    using na nd np Dd by (simp add: r5) (simp add: hd State_get_def)
  from r1 r2 r3 r4 r5 r6 show ?thesis by blast
qed

lemma connect_effects_sum_widget:
  "connect_effects sum_widget ''a'' r w = w"
  "connect_effects sum_widget ''b'' r w = w"
  "connect_effects sum_widget ''sum'' r w = fst (State_watch r (EffectLambda 9 ''on_sum'' quiet) w)"
  by (simp_all add: connect_effects_def sum_widget_def dir_type_def sum_type_def)

lemma sum_widget_id: "w_id sum_widget = 9"
  by (simp add: sum_widget_def)

lemma world_ab_cells:
  "cells world_ab 0 = \<lparr>c_value = VInt 3, c_subscribers = [9], c_watchers = [], c_name = Some ''a''\<rparr>"
  "cells world_ab (Suc 0) = \<lparr>c_value = VInt 4, c_subscribers = [9], c_watchers = [], c_name = Some ''b''\<rparr>"
  "next_ref world_ab = 2" "trace world_ab = []"
  by (simp_all add: world_ab_def use_state_def State_init_def State_subscribe_def
      empty_world_def connect_effects_sum_widget sum_widget_id Let_def)

lemma world_sum_created:
  "use_derived sum_widget [0, Suc 0] sum_selector (Some ''sum'') world_ab =
     (world_sum, Inr \<lparr>h_state = 2, h_name = Some ''sum''\<rparr>)"
  by (simp add: world_sum_def use_derived_def apply_selector_def get_values_def
      world_ab_cells sum_selector_def State_init_def Let_def)

lemma world_sum_cells:
  "cells world_sum 2 = \<lparr>c_value = VInt 7, c_subscribers = [9],
      c_watchers = [EffectLambda 9 ''on_sum'' quiet], c_name = Some ''sum''\<rparr>"
  "trace world_sum = []"
  by (simp_all add: world_sum_def use_derived_def apply_selector_def get_values_def
      world_ab_cells sum_selector_def State_init_def Let_def State_subscribe_def
      State_watch_def connect_effects_sum_widget sum_widget_id)

lemma world_sum_sources:
  "cells world_sum 0 = \<lparr>c_value = VInt 3, c_subscribers = [9],
      c_watchers = [OnSourceChange [0, Suc 0] sum_selector 2], c_name = Some ''a''\<rparr>"
  "cells world_sum (Suc 0) = \<lparr>c_value = VInt 4, c_subscribers = [9],
      c_watchers = [OnSourceChange [0, Suc 0] sum_selector 2], c_name = Some ''b''\<rparr>"
  by (simp_all add: world_sum_def use_derived_def apply_selector_def get_values_def
      world_ab_cells sum_selector_def State_init_def Let_def State_subscribe_def
      State_watch_def connect_effects_sum_widget sum_widget_id)

lemma world_b20_cells:
  "cells world_b20 0 = cells world_sum 0"
  "cells world_b20 (Suc 0) = (cells world_sum (Suc 0))\<lparr>c_value := VInt 20\<rparr>"
  "cells world_b20 2 = (cells world_sum 2)\<lparr>c_value := VInt 23\<rparr>"
  "trace world_b20 = [MethodCalled 9 ''on_sum'' (VInt 7) (VInt 23), Posted 9 2 (VInt 7) (VInt 23),
      Posted 9 (Suc 0) (VInt 4) (VInt 20)]"
  by (simp_all add: world_b20_def State_set_literal State_set_value_changed world_sum_sources
      world_sum_cells values_equal_def store_value_def apply_selector_def get_values_def
      sum_selector_def post_messages_trace add_trace_def log_event_def quiet_def)

lemma derived_follows_source_example:
  "(0::nat) \<noteq> Suc 0 \<and> (0 < next_ref world_ab \<and> Suc 0 < next_ref world_ab) \<and>
   use_derived sum_widget [0, Suc 0] sum_selector (Some ''sum'') world_ab =
     (world_sum, Inr \<lparr>h_state = 2, h_name = Some ''sum''\<rparr>) \<and>
   (wired_like world_sum world_b20 0 \<and> wired_like world_sum world_b20 (Suc 0) \<and>
    wired_like world_sum world_b20 2) \<and>
   \<not> callable (VInt 10) \<and> \<not> values_equal (State_get 0 world_b20) (VInt 10) \<and>
   State_get (Suc 0) world_ab = VInt 4 \<and> State_get (Suc 0) world_b20 = VInt 20 \<and>
   (sum_selector [VInt 10, State_get (Suc 0) world_b20] = Inr (VInt 30) \<and>
    \<not> callable (VInt 30)) \<and>
   State_get 2 world_b20 = VInt 23 \<and>
   snd (State_set no_callables (Suc 0) 0 (VInt 10) world_b20) = None \<and>
   State_get 2 (fst (State_set no_callables (Suc 0) 0 (VInt 10) world_b20)) = VInt 30 \<and>
   drop (length (trace world_b20))
     (trace (fst (State_set no_callables (Suc 0) 0 (VInt 10) world_b20))) =
     [MethodCalled 9 ''on_sum'' (VInt 23) (VInt 30), Posted 9 2 (VInt 23) (VInt 30),
      Posted 9 0 (VInt 3) (VInt 10)]"
proof -
  have h1: "(0::nat) \<noteq> Suc 0" by simp
  have h2: "0 < next_ref world_ab \<and> Suc 0 < next_ref world_ab" by (simp add: world_ab_cells)
  note h3 = world_sum_created
  have h4: "wired_like world_sum world_b20 0 \<and> wired_like world_sum world_b20 (Suc 0) \<and>
    wired_like world_sum world_b20 (h_state \<lparr>h_state = 2, h_name = Some ''sum''\<rparr>)"
    by (simp add: wired_like_def world_b20_cells)
  have h5: "\<not> callable (VInt 10)" by simp
  have h6: "\<not> values_equal (State_get 0 world_b20) (VInt 10)"
    by (simp add: State_get_def world_b20_cells world_sum_sources values_equal_def)
  have h7: "list_all (returns_normally (State_get 0 world_b20) (VInt 10))
      (c_watchers (cells world_ab 0))"
    by (simp add: world_ab_cells)
  have h8: "sum_selector [VInt 10, State_get (Suc 0) world_b20] = Inr (VInt 30) \<and>
      \<not> callable (VInt 30)"
    by (simp add: State_get_def world_b20_cells sum_selector_def)
  have h9: "list_all (returns_normally
        (State_get (h_state \<lparr>h_state = 2, h_name = Some ''sum''\<rparr>) world_b20) (VInt 30))
      (c_watchers (cells world_sum (h_state \<lparr>h_state = 2, h_name = Some ''sum''\<rparr>)))"
    by (simp add: world_sum_cells returns_normally_def quiet_def)
  have vb: "State_get (Suc 0) world_ab = VInt 4 \<and> State_get (Suc 0) world_b20 = VInt 20"
    by (simp add: State_get_def world_ab_cells world_b20_cells)
  have vd: "State_get 2 world_b20 = VInt 23"
    by (simp add: State_get_def world_b20_cells)
  from derived_follows_source [OF h1 h2 h3 h4 h5 h6 h7 h8 h9, of no_callables 0]
  have c: "snd (State_set no_callables (Suc 0) 0 (VInt 10) world_b20) = None \<and>
   State_get 2 (fst (State_set no_callables (Suc 0) 0 (VInt 10) world_b20)) = VInt 30 \<and>
   drop (length (trace world_b20))
     (trace (fst (State_set no_callables (Suc 0) 0 (VInt 10) world_b20))) =
     [MethodCalled 9 ''on_sum'' (VInt 23) (VInt 30), Posted 9 2 (VInt 23) (VInt 30),
      Posted 9 0 (VInt 3) (VInt 10)]"
    by (simp add: vd State_get_def world_ab_cells world_sum_cells world_sum_sources
        world_b20_cells values_equal_def sum_widget_id)
  from h4 have h4': "wired_like world_sum world_b20 0 \<and> wired_like world_sum world_b20 (Suc 0) \<and>
    wired_like world_sum world_b20 2" by simp
  from h1 h2 h3 h4' h5 h6 h8 vb vd c show ?thesis by blast
qed

lemma world_fn_cells:
  "cells world_fn 0 = \<lparr>c_value = VInt 3, c_subscribers = [9],
      c_watchers = [OnSourceChange [0, Suc 0] always_fn 2], c_name = Some ''a''\<rparr>"
  "cells world_fn (Suc 0) = \<lparr>c_value = VInt 4, c_subscribers = [9],
      c_watchers = [OnSourceChange [0, Suc 0] always_fn 2], c_name = Some ''b''\<rparr>"
  "cells world_fn 2 = \<lparr>c_value = VFun 0, c_subscribers = [9],
      c_watchers = [EffectLambda 9 ''on_sum'' quiet], c_name = Some ''sum''\<rparr>"
  "trace world_fn = []"
  by (simp_all add: world_fn_def use_derived_def apply_selector_def get_values_def
      world_ab_cells always_fn_def State_init_def Let_def State_subscribe_def
      State_watch_def connect_effects_sum_widget sum_widget_id)

text \<open>
  C6. The claim does not hold of the code when the selector returns a callable.
  \<open>use_derived\<close> stores the first result as it is, but \<open>on_source_change\<close> passes the
  recomputed result to \<open>set\<close>, which takes a callable as an updater. With a selector
  that always returns the callable \<open>fn\<close>, and \<open>fn\<close> returning 42, the derivation holds
  \<open>fn\<close> after its creation; after \<open>a.set(10)\<close> it holds 42, the result of \<open>fn\<close> on
  the previous value, not \<open>f(10, b.get())\<close>, which is \<open>fn\<close>; and the effect of the
  derivation and its message are in the trace although the recomputed value equals the
  previous one.
\<close>

theorem derived_callable_result_is_applied:
  "State_get 2 world_fn = VFun 0 \<and>
   always_fn [VInt 10, State_get (Suc 0) world_fn] = Inr (VFun 0) \<and>
   values_equal (State_get 2 world_fn) (VFun 0) \<and>
   snd (State_set returns_42 (Suc 0) 0 (VInt 10) world_fn) = None \<and>
   State_get 0 (fst (State_set returns_42 (Suc 0) 0 (VInt 10) world_fn)) = VInt 10 \<and>
   State_get 2 (fst (State_set returns_42 (Suc 0) 0 (VInt 10) world_fn)) = VInt 42 \<and>
   trace (fst (State_set returns_42 (Suc 0) 0 (VInt 10) world_fn)) =
     [MethodCalled 9 ''on_sum'' (VFun 0) (VInt 42), Posted 9 2 (VFun 0) (VInt 42),
      Posted 9 0 (VInt 3) (VInt 10)]"
  by (simp add: State_get_def world_fn_cells State_set.simps State_set_value_changed
      values_equal_def store_value_def apply_selector_def get_values_def always_fn_def
      returns_42_def post_messages_trace add_trace_def log_event_def quiet_def)

end
